theory Spec2Isabelle
  imports Main "HOL-Library.AList" "HOL-Library.List_Lexorder" "HOL-Library.Char_ord"
begin

section \<open>JavaScript values and strings\<close>

text \<open>
  The gateway (the \<^verbatim>\<open>ai-ideas\<close> edge function) handles parsed JSON bodies typed
  \<^verbatim>\<open>any\<close>.  A value is modelled by the datatype below; \<open>JUndefined\<close> is what a
  read of a missing property yields.  An object is an association list in key order.

  Scope of the model: a string is a list of code units, each a \<^typ>\<open>char\<close>, so code
  units below 256 are covered; a JSON number is an integer (fractions, exponents and
  the rounding of magnitudes above \<open>2^53\<close> to a double are outside the model).
\<close>

datatype json =
    JUndefined
  | JNull
  | JBool bool
  | JNum int
  | JStr string
  | JArr "json list"
  | JObj "(string \<times> json) list"

text \<open>The errors of the source are \<^verbatim>\<open>throw new Error(msg)\<close> and the engine's own
  exceptions; only the message is ever read (by the \<^verbatim>\<open>catch\<close> block of \<^verbatim>\<open>serve\<close>).\<close>

datatype js_error = Thrown string

fun message :: "js_error \<Rightarrow> string" where
  "message (Thrown m) = m"

text \<open>ToBoolean, as used by \<^verbatim>\<open>!x\<close>, \<^verbatim>\<open>x && y\<close>, \<^verbatim>\<open>x || y\<close> and \<^verbatim>\<open>x ? y : z\<close>.\<close>

fun truthy :: "json \<Rightarrow> bool" where
  "truthy JUndefined = False"
| "truthy JNull = False"
| "truthy (JBool b) = b"
| "truthy (JNum n) = (n \<noteq> 0)"
| "truthy (JStr s) = (s \<noteq> [])"
| "truthy (JArr xs) = True"
| "truthy (JObj kvs) = True"

text \<open>\<^verbatim>\<open>typeof v === 'string'\<close> and \<^verbatim>\<open>Array.isArray(v)\<close>.\<close>

fun is_string :: "json \<Rightarrow> bool" where
  "is_string (JStr s) = True"
| "is_string v = False"

fun is_array :: "json \<Rightarrow> bool" where
  "is_array (JArr xs) = True"
| "is_array v = False"

text \<open>A property read \<^verbatim>\<open>data.k\<close> on a value that is neither \<^verbatim>\<open>null\<close> nor
  \<^verbatim>\<open>undefined\<close> (on those the read throws, which the callers model).  Of the
  built-in properties only \<^verbatim>\<open>length\<close> is ever read by the source.\<close>

fun get_prop :: "json \<Rightarrow> string \<Rightarrow> json" where
  "get_prop (JObj kvs) k = (case map_of kvs k of Some v \<Rightarrow> v | None \<Rightarrow> JUndefined)"
| "get_prop (JStr s) k = (if k = ''length'' then JNum (int (length s)) else JUndefined)"
| "get_prop (JArr xs) k = (if k = ''length'' then JNum (int (length xs)) else JUndefined)"
| "get_prop v k = JUndefined"

text \<open>\<^verbatim>\<open>v > n\<close> for a number \<open>n\<close>: exact when \<open>v\<close> is a number or
  \<^verbatim>\<open>undefined\<close> (NaN compares false).  Other operands, which JavaScript would
  first coerce to a number, arise only from a \<^verbatim>\<open>title\<close> that is an object with an
  own non-numeric \<^verbatim>\<open>length\<close>; they compare false here.\<close>

fun js_gt :: "json \<Rightarrow> int \<Rightarrow> bool" where
  "js_gt (JNum m) n = (m > n)"
| "js_gt v n = False"

text \<open>ASCII case folding: without the \<^verbatim>\<open>u\<close> flag, a case-insensitive regular
  expression lets an ASCII letter of the pattern match exactly its two cases.\<close>

definition lower :: "char \<Rightarrow> char" where
  "lower c =
     (if CHR ''A'' \<le> c \<and> c \<le> CHR ''Z'' then
        (case map_of (zip ''ABCDEFGHIJKLMNOPQRSTUVWXYZ'' ''abcdefghijklmnopqrstuvwxyz'') c of
           Some l \<Rightarrow> l
         | None \<Rightarrow> c)
      else c)"

text \<open>White space and line terminators removed by \<^verbatim>\<open>String.prototype.trim\<close>, among
  the code units below 256: TAB, LF, VT, FF, CR, SP and NBSP.\<close>

definition is_space :: "char \<Rightarrow> bool" where
  "is_space c = (c \<in> set [CHR 0x09, CHR 0x0A, CHR 0x0B, CHR 0x0C, CHR 0x0D, CHR 0x20, CHR 0xA0])"

definition trim :: "string \<Rightarrow> string" where
  "trim s = rev (dropWhile is_space (rev (dropWhile is_space s)))"

section \<open>Request validator\<close>

text \<open>\<^verbatim>\<open>/^#[0-9A-F]{6}$/i.test(s)\<close>: anchored at both ends (no \<^verbatim>\<open>m\<close> flag, so
  \<^verbatim>\<open>$\<close> is the end of the input), a hash sign and then exactly six class members.\<close>

definition is_hex :: "char \<Rightarrow> bool" where
  "is_hex c = ((CHR ''0'' \<le> c \<and> c \<le> CHR ''9'') \<or> (CHR ''a'' \<le> lower c \<and> lower c \<le> CHR ''f''))"

definition color_regex_test :: "string \<Rightarrow> bool" where
  "color_regex_test s =
     (case s of
        [] \<Rightarrow> False
      | c # cs \<Rightarrow> c = CHR ''#'' \<and> length cs = 6 \<and> list_all is_hex cs)"

text \<open>The spec's words for a valid colour, \<^verbatim>\<open>^#[0-9A-Fa-f]{6}$\<close>: seven characters, a hash
  sign and six hexadecimal digits.  This second definition is written from the spec; it is
  compared with \<open>color_regex_test\<close>, which is written from the code.\<close>

definition spec_hex_digits :: string where
  "spec_hex_digits = ''0123456789ABCDEFabcdef''"

definition spec_hex_color :: "string \<Rightarrow> bool" where
  "spec_hex_color s =
     (length s = 7 \<and> hd s = CHR ''#'' \<and> list_all (\<lambda>c. c \<in> set spec_hex_digits) (tl s))"

definition valid_statuses :: "string list" where
  "valid_statuses = [''idea'', ''research'', ''progress'', ''launched'', ''archived'']"

definition msg_title_required :: string where
  "msg_title_required = ''Title is required and must be a non-empty string''"

definition msg_title_length :: string where
  "msg_title_length = ''Title must be less than 500 characters''"

definition msg_description :: string where
  "msg_description = ''Description must be a string''"

definition msg_status :: string where
  "msg_status = ''Status must be one of: idea, research, progress, launched, archived''"

definition msg_tags :: string where
  "msg_tags = ''Tags must be an array of strings''"

definition msg_color :: string where
  "msg_color = ''Color must be a valid hex color code''"

text \<open>The six conditions of \<^verbatim>\<open>validateIdeaData\<close>, one per \<^verbatim>\<open>if\<close>, in source order.\<close>

definition title_missing :: "json \<Rightarrow> bool" where
  "title_missing d =
     (\<not> truthy (get_prop d ''title'') \<or> \<not> is_string (get_prop d ''title'') \<or>
      (case get_prop d ''title'' of JStr s \<Rightarrow> length (trim s) = 0 | _ \<Rightarrow> False))"

definition title_too_long :: "json \<Rightarrow> bool" where
  "title_too_long d =
     (truthy (get_prop d ''title'') \<and> js_gt (get_prop (get_prop d ''title'') ''length'') 500)"

definition description_bad :: "json \<Rightarrow> bool" where
  "description_bad d =
     (truthy (get_prop d ''description'') \<and> \<not> is_string (get_prop d ''description''))"

definition status_bad :: "json \<Rightarrow> bool" where
  "status_bad d =
     (truthy (get_prop d ''status'') \<and>
      \<not> (case get_prop d ''status'' of JStr s \<Rightarrow> s \<in> set valid_statuses | _ \<Rightarrow> False))"

definition tags_bad :: "json \<Rightarrow> bool" where
  "tags_bad d =
     (truthy (get_prop d ''tags'') \<and>
      (\<not> is_array (get_prop d ''tags'') \<or>
       \<not> (case get_prop d ''tags'' of JArr ts \<Rightarrow> list_all is_string ts | _ \<Rightarrow> True)))"

definition color_bad :: "json \<Rightarrow> bool" where
  "color_bad d =
     (truthy (get_prop d ''color'') \<and>
      (\<not> is_string (get_prop d ''color'') \<or>
       \<not> (case get_prop d ''color'' of JStr s \<Rightarrow> color_regex_test s | _ \<Rightarrow> False)))"

definition check :: "bool \<Rightarrow> string \<Rightarrow> string list" where
  "check violated msg = (if violated then [msg] else [])"

text \<open>\<^verbatim>\<open>validateIdeaData(data)\<close>.  Reading \<^verbatim>\<open>data.title\<close> of \<^verbatim>\<open>null\<close> throws a
  TypeError (the text of its message is the engine's).\<close>

definition null_read :: js_error where
  "null_read = Thrown ''Cannot read properties of null''"

definition validateIdeaData :: "json \<Rightarrow> js_error + string list" where
  "validateIdeaData d =
     (if d = JNull \<or> d = JUndefined then Inl null_read
      else Inr (check (title_missing d) msg_title_required @
                check (title_too_long d) msg_title_length @
                check (description_bad d) msg_description @
                check (status_bad d) msg_status @
                check (tags_bad d) msg_tags @
                check (color_bad d) msg_color))"

section \<open>Content sanitizer\<close>

text \<open>
  \<^verbatim>\<open>content.replace(re, '')\<close> with a global regular expression scans from the left;
  where the expression matches, the matched code units are dropped and the scan goes
  on behind the match, never looking again at what it has already produced.  A matcher
  gives the length of the match starting at the head of its argument, if there is one.
\<close>

fun remove_all :: "(string \<Rightarrow> nat option) \<Rightarrow> string \<Rightarrow> string" where
  "remove_all m [] = []"
| "remove_all m (c # cs) =
     (case m (c # cs) of
        None \<Rightarrow> c # remove_all m cs
      | Some 0 \<Rightarrow> c # remove_all m cs
      | Some (Suc n) \<Rightarrow> remove_all m (drop n cs))"

text \<open>A literal of the pattern, matched case-insensitively at the head of the input.\<close>

fun ci_prefix :: "string \<Rightarrow> string \<Rightarrow> bool" where
  "ci_prefix [] s = True"
| "ci_prefix (p # ps) [] = False"
| "ci_prefix (p # ps) (c # cs) = (if lower p = lower c then ci_prefix ps cs else False)"

text \<open>The number of code units before the first one satisfying \<open>P\<close>.\<close>

fun find_first :: "(string \<Rightarrow> bool) \<Rightarrow> string \<Rightarrow> nat option" where
  "find_first P [] = (if P [] then Some 0 else None)"
| "find_first P (c # cs) =
     (if P (c # cs) then Some 0
      else (case find_first P cs of None \<Rightarrow> None | Some n \<Rightarrow> Some (Suc n)))"

definition starts_gt :: "string \<Rightarrow> bool" where
  "starts_gt s = (case s of [] \<Rightarrow> False | c # cs \<Rightarrow> c = CHR ''>'')"

text \<open>\<^verbatim>\<open>/literal/gi\<close>, for \<^verbatim>\<open>javascript:\<close> and \<^verbatim>\<open>data:\<close>.\<close>

definition match_literal :: "string \<Rightarrow> string \<Rightarrow> nat option" where
  "match_literal p s = (if ci_prefix p s then Some (length p) else None)"

text \<open>The pattern built for one tag name: a less-than sign, an optional slash, the name,
  then any run of code units other than the greater-than sign, then that sign.  The run
  cannot cross a greater-than sign, so the match ends at the first one behind the name.\<close>

definition match_tag :: "string \<Rightarrow> string \<Rightarrow> nat option" where
  "match_tag tag s =
     (let p = (if ci_prefix (''</'' @ tag) s then ''</'' @ tag
               else if ci_prefix (''<'' @ tag) s then ''<'' @ tag
               else [])
      in if p = [] then None
         else (case find_first starts_gt (drop (length p) s) of
                 None \<Rightarrow> None
               | Some n \<Rightarrow> Some (length p + n + 1)))"

text \<open>The script-block pattern: the opening tag as above (without the slash), then the
  shortest run of any code units that is followed by the closing tag.\<close>

definition match_script_block :: "string \<Rightarrow> nat option" where
  "match_script_block s =
     (if ci_prefix ''<script'' s then
        (case find_first starts_gt (drop 7 s) of
           None \<Rightarrow> None
         | Some n \<Rightarrow>
             (case find_first (ci_prefix ''</script>'') (drop (7 + n + 1) s) of
                None \<Rightarrow> None
              | Some k \<Rightarrow> Some (7 + n + 1 + k + 9)))
      else None)"

definition dangerousTags :: "string list" where
  "dangerousTags = [''script'', ''iframe'', ''object'', ''embed'', ''form'', ''input'',
                    ''textarea'', ''button'']"

definition max_content_length :: nat where
  "max_content_length = 10 * 1024 * 1024"

definition too_large :: js_error where
  "too_large = Thrown ''Content too large (max 10MB)''"

text \<open>The replacements of \<^verbatim>\<open>sanitizeMarkdown\<close> up to the length check, in source order:
  script blocks, the loop over the dangerous tags, \<^verbatim>\<open>javascript:\<close>, \<^verbatim>\<open>data:\<close>.\<close>

definition strip_markup :: "string \<Rightarrow> string" where
  "strip_markup content =
     remove_all (match_literal ''data:'')
       (remove_all (match_literal ''javascript:'')
          (foldl (\<lambda>c tag. remove_all (match_tag tag) c)
             (remove_all match_script_block content) dangerousTags))"

definition sanitizeMarkdown :: "string \<Rightarrow> js_error + string" where
  "sanitizeMarkdown content =
     (if content = [] then Inr []
      else let c = strip_markup content
           in if length c > max_content_length then Inl too_large
              else Inr (trim c))"

section \<open>Credential store and rate limiter\<close>

text \<open>The row returned by the stored procedure \<^verbatim>\<open>validate_api_key\<close>, as declared in
  \<^verbatim>\<open>types.ts\<close>.\<close>

record key_data =
  api_key_id :: string
  is_valid :: bool
  permissions :: "string list"
  rate_limit_per_hour :: int
  user_id :: string

text \<open>What \<^verbatim>\<open>supabase.rpc\<close> resolves to: \<^verbatim>\<open>{error}\<close>, \<^verbatim>\<open>{data: null}\<close> or
  \<^verbatim>\<open>{data}\<close>.\<close>

datatype 'a reply = Failed | NoData | Data 'a

text \<open>The two stored procedures and the database defaults are not part of the function;
  they are parameters of the model.  \<open>column_defaults\<close> is the row the database would
  store for an insert that names no column (generated id, default status and colour,
  timestamps).\<close>

record env =
  validate_api_key :: "string \<Rightarrow> key_data list reply"
  check_rate_limit :: "string \<Rightarrow> string \<Rightarrow> int \<Rightarrow> bool reply"
  column_defaults :: "(string \<times> json) list"

definition startsWith :: "string \<Rightarrow> string \<Rightarrow> bool" where
  "startsWith s p = (take (length p) s = p)"

definition authenticateApiKey :: "env \<Rightarrow> string \<Rightarrow> js_error + key_data" where
  "authenticateApiKey e apiKey =
     (if apiKey = [] \<or> \<not> startsWith apiKey ''iah_'' then Inl (Thrown ''Invalid API key format'')
      else (case validate_api_key e apiKey of
              Failed \<Rightarrow> Inl (Thrown ''Authentication failed'')
            | NoData \<Rightarrow> Inl (Thrown ''Invalid API key'')
            | Data [] \<Rightarrow> Inl (Thrown ''Invalid API key'')
            | Data (keyData # rest) \<Rightarrow>
                if \<not> is_valid keyData then Inl (Thrown ''API key is expired or inactive'')
                else Inr keyData))"

definition checkRateLimit :: "env \<Rightarrow> string \<Rightarrow> string \<Rightarrow> int \<Rightarrow> js_error + bool" where
  "checkRateLimit e apiKeyId endpoint rateLimit =
     (case check_rate_limit e apiKeyId endpoint rateLimit of
        Failed \<Rightarrow> Inl (Thrown ''Rate limiting failed'')
      | NoData \<Rightarrow> Inl (Thrown ''Rate limit exceeded'')
      | Data d \<Rightarrow> if \<not> d then Inl (Thrown ''Rate limit exceeded'') else Inr d)"

section \<open>Record store\<close>

text \<open>
  Modelled from the spec: the Record Store behind \<^verbatim>\<open>supabase.from('ideas')\<close>, which is
  a database table reached over HTTP and not code of the function.  The spec gives its
  interface as \<^verbatim>\<open>insert\<close>, \<^verbatim>\<open>get(id, ownerId)\<close>, \<^verbatim>\<open>query(filters, order, range)\<close> and
  \<^verbatim>\<open>update(id, ownerId, patch)\<close>; the columns are those declared in \<^verbatim>\<open>types.ts\<close>.
  A row is an object; \<^verbatim>\<open>.single()\<close> fails unless exactly one row results, and a failed
  write leaves the table as it was.  Constraints of the table (keys, non-null columns,
  column types), triggers, and the wildcard and reserved characters of the
  \<^verbatim>\<open>ilike\<close> filter are not modelled.

  Each operation appends the call it received to \<open>calls\<close>, so that a theorem can say
  which requests reach the store and with which arguments.
\<close>

type_synonym row = "(string \<times> json) list"

datatype store_call =
    SelectSingle string string
  | SelectRange string "int option" "int option" "string option" "string option"
  | Insert row
  | Update row string string

record world =
  ideas :: "row list"
  calls :: "store_call list"

text \<open>The owner a store call is scoped to: the \<^verbatim>\<open>user_id\<close> of its filter, or of the row
  it inserts.\<close>

definition call_owner :: "store_call \<Rightarrow> json" where
  "call_owner c =
     (case c of
        SelectSingle ideaId owner \<Rightarrow> JStr owner
      | SelectRange owner offset limit st search \<Rightarrow> JStr owner
      | Insert r \<Rightarrow> (case map_of r ''user_id'' of Some v \<Rightarrow> v | None \<Rightarrow> JNull)
      | Update patch ideaId owner \<Rightarrow> JStr owner)"

definition columns :: "string list" where
  "columns = [''color'', ''created_at'', ''description'', ''group_id'', ''id'', ''image_url'',
              ''original_description'', ''status'', ''tags'', ''title'', ''updated_at'',
              ''user_id'']"

definition known_columns :: "row \<Rightarrow> bool" where
  "known_columns r = list_all (\<lambda>k. k \<in> set columns) (map fst r)"

definition column :: "row \<Rightarrow> string \<Rightarrow> json" where
  "column r k = (case map_of r k of Some v \<Rightarrow> v | None \<Rightarrow> JNull)"

definition matches :: "string \<Rightarrow> string \<Rightarrow> row \<Rightarrow> bool" where
  "matches ideaId owner r = (column r ''id'' = JStr ideaId \<and> column r ''user_id'' = JStr owner)"

definition single :: "row list \<Rightarrow> row option" where
  "single rs = (case rs of [r] \<Rightarrow> Some r | _ \<Rightarrow> None)"

definition apply_patch :: "row \<Rightarrow> row \<Rightarrow> row" where
  "apply_patch patch r = fold (\<lambda>kv. AList.update (fst kv) (snd kv)) patch r"

definition logged :: "store_call \<Rightarrow> world \<Rightarrow> world" where
  "logged c w = w\<lparr>calls := calls w @ [c]\<rparr>"

text \<open>Modelled from the spec: \<^verbatim>\<open>get(id, ownerId)\<close>, the select with \<^verbatim>\<open>.eq('id', \<dots>)\<close>,
  \<^verbatim>\<open>.eq('user_id', \<dots>)\<close> and \<^verbatim>\<open>.single()\<close>.\<close>

definition store_select_single :: "string \<Rightarrow> string \<Rightarrow> world \<Rightarrow> row option \<times> world" where
  "store_select_single ideaId owner w =
     (single (filter (matches ideaId owner) (ideas w)), logged (SelectSingle ideaId owner) w)"

text \<open>Modelled from the spec: \<^verbatim>\<open>insert\<close>.  The new row has the database defaults for the
  columns the object does not name; an object naming an unknown column is refused.\<close>

definition store_insert :: "env \<Rightarrow> row \<Rightarrow> world \<Rightarrow> row option \<times> world" where
  "store_insert e obj w =
     (let w' = logged (Insert obj) w
      in if \<not> known_columns obj then (None, w')
         else let r = apply_patch obj (column_defaults e)
              in (Some r, w'\<lparr>ideas := ideas w @ [r]\<rparr>))"

text \<open>Modelled from the spec: \<^verbatim>\<open>update(id, ownerId, patch)\<close> with \<^verbatim>\<open>.single()\<close>.  The patch
  sets the columns it names on the one row matching id and owner; with no such row, or
  more than one, or an unknown column, nothing is written.\<close>

definition store_update :: "row \<Rightarrow> string \<Rightarrow> string \<Rightarrow> world \<Rightarrow> row option \<times> world" where
  "store_update patch ideaId owner w =
     (let w' = logged (Update patch ideaId owner) w
      in if \<not> known_columns patch then (None, w')
         else (case single (filter (matches ideaId owner) (ideas w)) of
                 None \<Rightarrow> (None, w')
               | Some r \<Rightarrow>
                   (Some (apply_patch patch r),
                    w'\<lparr>ideas := map (\<lambda>x. if matches ideaId owner x then apply_patch patch x else x)
                                    (ideas w)\<rparr>)))"

text \<open>Modelled from the spec: \<^verbatim>\<open>query(filters, order, range)\<close>.  Rows of the owner, with the
  status if one is given, whose title or description contains the search text if one is
  given (case-insensitively), newest \<^verbatim>\<open>updated_at\<close> first, sliced from the offset for the
  limit.  A range that is not a pair of non-negative integers is refused.\<close>

definition ci_contains :: "string \<Rightarrow> string \<Rightarrow> bool" where
  "ci_contains needle hay = (find_first (ci_prefix needle) hay \<noteq> None)"

definition text_of :: "json \<Rightarrow> string" where
  "text_of v = (case v of JStr s \<Rightarrow> s | _ \<Rightarrow> [])"

definition selected :: "string \<Rightarrow> string option \<Rightarrow> string option \<Rightarrow> row \<Rightarrow> bool" where
  "selected owner st search r =
     (column r ''user_id'' = JStr owner \<and>
      (case st of None \<Rightarrow> True | Some s \<Rightarrow> column r ''status'' = JStr s) \<and>
      (case search of
         None \<Rightarrow> True
       | Some q \<Rightarrow> ci_contains q (text_of (column r ''title'')) \<or>
                   ci_contains q (text_of (column r ''description''))))"

definition newest_first :: "row list \<Rightarrow> row list" where
  "newest_first rs = rev (sort_key (\<lambda>r. text_of (column r ''updated_at'')) rs)"

text \<open>Modelled from the spec: the range query itself, as described above.\<close>

definition store_select_range ::
  "string \<Rightarrow> int option \<Rightarrow> int option \<Rightarrow> string option \<Rightarrow> string option \<Rightarrow> world
     \<Rightarrow> row list option \<times> world" where
  "store_select_range owner offset limit st search w =
     (let w' = logged (SelectRange owner offset limit st search) w
      in (case (offset, limit) of
            (Some off, Some lim) \<Rightarrow>
              if off < 0 \<or> lim < 0 then (None, w')
              else (Some (take (nat lim)
                           (drop (nat off)
                              (newest_first (filter (selected owner st search) (ideas w))))), w')
          | _ \<Rightarrow> (None, w')))"

text \<open>What it means for a step from world \<open>w\<close> to \<open>w'\<close> to stay within one owner's
  records: every store call made is scoped to the owner, no record is removed, a record
  that changed was the owner's, and a record that was added is the owner's.\<close>

abbreviation (input) scoped :: "string \<Rightarrow> world \<Rightarrow> world \<Rightarrow> bool" where
  "scoped owner w w' \<equiv>
     (\<exists>cs. calls w' = calls w @ cs \<and> list_all (\<lambda>c. call_owner c = JStr owner) cs) \<and>
     length (ideas w) \<le> length (ideas w') \<and>
     (\<forall>i < length (ideas w). ideas w' ! i \<noteq> ideas w ! i \<longrightarrow>
          column (ideas w ! i) ''user_id'' = JStr owner) \<and>
     (\<forall>r \<in> set (drop (length (ideas w)) (ideas w')). column r ''user_id'' = JStr owner)"

section \<open>The gateway\<close>

text \<open>What \<^verbatim>\<open>serve\<close> reads of a request: the method, the \<^verbatim>\<open>x-api-key\<close> header (absent
  or a string), the path and decoded query pairs of the URL, and the parsed body
  (\<open>None\<close> when \<^verbatim>\<open>req.json()\<close> rejects).\<close>

record request =
  req_method :: string
  api_key_header :: "string option"
  pathname :: string
  searchParams :: "(string \<times> string) list"
  json_body :: "json option"

record response =
  resp_status :: nat
  resp_body :: json

text \<open>The records a response carries under \<^verbatim>\<open>data\<close>: one object, or an array of them.\<close>

definition returned :: "response \<Rightarrow> row list" where
  "returned r =
     (case get_prop (resp_body r) ''data'' of
        JObj idea \<Rightarrow> [idea]
      | JArr vs \<Rightarrow> concat (map (\<lambda>v. case v of JObj idea \<Rightarrow> [idea] | _ \<Rightarrow> []) vs)
      | _ \<Rightarrow> [])"

definition respond :: "nat \<Rightarrow> json \<Rightarrow> response" where
  "respond st b = \<lparr>resp_status = st, resp_body = b\<rparr>"

definition error_body :: "string \<Rightarrow> json" where
  "error_body msg = JObj [(''error'', JStr msg)]"

text \<open>The \<^verbatim>\<open>catch\<close> block at the end of \<^verbatim>\<open>serve\<close>: every thrown error becomes a 500
  carrying the error's message.\<close>

definition catch_block :: "js_error \<Rightarrow> response" where
  "catch_block err =
     respond 500 (error_body (if message err = [] then ''Internal server error'' else message err))"

definition body_rejected :: js_error where
  "body_rejected = Thrown ''Unexpected end of JSON input''"

definition not_a_string :: js_error where
  "not_a_string = Thrown ''content.replace is not a function''"

text \<open>\<^verbatim>\<open>url.pathname.split('/').pop()\<close>: what follows the last slash.\<close>

definition last_segment :: "string \<Rightarrow> string" where
  "last_segment p = rev (takeWhile (\<lambda>c. c \<noteq> CHR ''/'') (rev p))"

text \<open>\<^verbatim>\<open>parseInt(s)\<close> with no radix: leading white space is skipped, a sign is read, a
  \<^verbatim>\<open>0x\<close> prefix selects radix 16, and the longest run of digits is the value; no digit
  gives NaN (\<open>None\<close>).\<close>

definition digit_value :: "char \<Rightarrow> nat option" where
  "digit_value c =
     map_of (zip ''0123456789abcdef'' [0, 1, 2, 3, 4, 5, 6, 7, 8, 9, 10, 11, 12, 13, 14, 15])
       (lower c)"

definition is_digit :: "nat \<Rightarrow> char \<Rightarrow> bool" where
  "is_digit radix c = (case digit_value c of None \<Rightarrow> False | Some d \<Rightarrow> d < radix)"

definition digits_value :: "nat \<Rightarrow> string \<Rightarrow> nat" where
  "digits_value radix ds = foldl (\<lambda>a c. a * radix + (case digit_value c of None \<Rightarrow> 0 | Some d \<Rightarrow> d)) 0 ds"

definition parse_radix :: "nat \<Rightarrow> string \<Rightarrow> nat option" where
  "parse_radix radix s =
     (let z = takeWhile (is_digit radix) s
      in if z = [] then None else Some (digits_value radix z))"

definition parseInt :: "string \<Rightarrow> int option" where
  "parseInt inp =
     (let s = dropWhile is_space inp;
          neg = (s \<noteq> [] \<and> hd s = CHR ''-'');
          s1 = (if s \<noteq> [] \<and> (hd s = CHR ''+'' \<or> hd s = CHR ''-'') then tl s else s);
          hex = (ci_prefix ''0x'' s1);
          mag = (if hex then parse_radix 16 (drop 2 s1) else parse_radix 10 s1)
      in (case mag of
            None \<Rightarrow> None
          | Some n \<Rightarrow> Some (if neg then - int n else int n)))"

text \<open>\<^verbatim>\<open>Math.min(x, 100)\<close>, NaN in, NaN out; and \<^verbatim>\<open>JSON.stringify\<close> of a number, which
  writes NaN as \<^verbatim>\<open>null\<close>.\<close>

definition math_min :: "int option \<Rightarrow> int \<Rightarrow> int option" where
  "math_min x y = (case x of None \<Rightarrow> None | Some n \<Rightarrow> Some (min n y))"

definition num_json :: "int option \<Rightarrow> json" where
  "num_json x = (case x of None \<Rightarrow> JNull | Some n \<Rightarrow> JNum n)"

text \<open>\<^verbatim>\<open>params.get(k)\<close> and \<^verbatim>\<open>params.get(k) || dflt\<close>.\<close>

definition param :: "request \<Rightarrow> string \<Rightarrow> string option" where
  "param req k = map_of (searchParams req) k"

definition param_or :: "request \<Rightarrow> string \<Rightarrow> string \<Rightarrow> string" where
  "param_or req k dflt = (case param req k of None \<Rightarrow> dflt | Some v \<Rightarrow> if v = [] then dflt else v)"

text \<open>A filter is added to the query only \<^verbatim>\<open>if (status)\<close>, \<^verbatim>\<open>if (search)\<close>.\<close>

definition given :: "string option \<Rightarrow> string option" where
  "given x = (case x of None \<Rightarrow> None | Some v \<Rightarrow> if v = [] then None else Some v)"

definition limit_of :: "request \<Rightarrow> int option" where
  "limit_of req = math_min (parseInt (param_or req ''limit'' ''50'')) 100"

definition offset_of :: "request \<Rightarrow> int option" where
  "offset_of req = parseInt (param_or req ''offset'' ''0'')"

definition handle_get :: "world \<Rightarrow> request \<Rightarrow> key_data \<Rightarrow> response \<times> world" where
  "handle_get w req keyData =
     (let ideaId = last_segment (pathname req)
      in if ideaId \<noteq> [] \<and> ideaId \<noteq> ''ai-ideas'' then
           (case store_select_single ideaId (user_id keyData) w of
              (None, w') \<Rightarrow> (respond 404 (error_body ''Idea not found''), w')
            | (Some idea, w') \<Rightarrow> (respond 200 (JObj [(''data'', JObj idea)]), w'))
         else
           (case store_select_range (user_id keyData) (offset_of req) (limit_of req)
                   (given (param req ''status'')) (given (param req ''search'')) w of
              (None, w') \<Rightarrow> (respond 500 (error_body ''Failed to fetch ideas''), w')
            | (Some rs, w') \<Rightarrow>
                (respond 200
                   (JObj [(''data'', JArr (map JObj rs)),
                          (''meta'', JObj [(''limit'', num_json (limit_of req)),
                                           (''offset'', num_json (offset_of req)),
                                           (''count'', JNum (int (length rs)))])]), w')))"

text \<open>The spread \<^verbatim>\<open>{...data}\<close> of a parsed body; only an object gets past the validator.
  An object has each key once: a key written twice in the list counts at its first
  occurrence, as in \<open>get_prop\<close>.\<close>

definition entries :: "json \<Rightarrow> row" where
  "entries d = (case d of JObj kvs \<Rightarrow> AList.clearjunk kvs | _ \<Rightarrow> [])"

definition sanitize_value :: "json \<Rightarrow> js_error + string" where
  "sanitize_value v = (case v of JStr s \<Rightarrow> sanitizeMarkdown s | _ \<Rightarrow> Inl not_a_string)"

definition validation_failed :: "string list \<Rightarrow> response" where
  "validation_failed errs =
     respond 400 (JObj [(''error'', JStr ''Validation failed''), (''details'', JArr (map JStr errs))])"

text \<open>\<^verbatim>\<open>c ? sanitizeMarkdown(c) : otherwise\<close>.\<close>

definition sanitized_or :: "json \<Rightarrow> json \<Rightarrow> js_error + json" where
  "sanitized_or v otherwise =
     (if truthy v then (case sanitize_value v of Inl err \<Rightarrow> Inl err | Inr s \<Rightarrow> Inr (JStr s))
      else Inr otherwise)"

definition handle_post :: "env \<Rightarrow> world \<Rightarrow> request \<Rightarrow> key_data \<Rightarrow> response \<times> world" where
  "handle_post e w req keyData =
     (case json_body req of
        None \<Rightarrow> (catch_block body_rejected, w)
      | Some createData \<Rightarrow>
          (case validateIdeaData createData of
             Inl err \<Rightarrow> (catch_block err, w)
           | Inr createErrors \<Rightarrow>
               if length createErrors > 0 then (validation_failed createErrors, w)
               else (case sanitize_value (get_prop createData ''title'') of
                       Inl err \<Rightarrow> (catch_block err, w)
                     | Inr title \<Rightarrow>
                         (case sanitized_or (get_prop createData ''description'') JNull of
                            Inl err \<Rightarrow> (catch_block err, w)
                          | Inr description \<Rightarrow>
                              (case store_insert e
                                      (AList.update ''user_id'' (JStr (user_id keyData))
                                         (AList.update ''description'' description
                                            (AList.update ''title'' (JStr title)
                                               (entries createData)))) w of
                                 (None, w') \<Rightarrow> (respond 500 (error_body ''Failed to create idea''), w')
                               | (Some newIdea, w') \<Rightarrow>
                                   (respond 201 (JObj [(''data'', JObj newIdea)]), w'))))))"

text \<open>The update object of the PUT branch: the spread body with \<^verbatim>\<open>title\<close> and
  \<^verbatim>\<open>description\<close> overwritten, then every key whose value is \<^verbatim>\<open>undefined\<close> deleted.\<close>

definition sanitizedUpdateData :: "json \<Rightarrow> json \<Rightarrow> json \<Rightarrow> row" where
  "sanitizedUpdateData updateData title description =
     filter (\<lambda>kv. snd kv \<noteq> JUndefined)
       (AList.update ''description'' description
          (AList.update ''title'' title (entries updateData)))"

definition handle_put :: "world \<Rightarrow> request \<Rightarrow> key_data \<Rightarrow> response \<times> world" where
  "handle_put w req keyData =
     (let ideaId = last_segment (pathname req)
      in if ideaId = [] \<or> ideaId = ''ai-ideas'' then
           (respond 400 (error_body ''Idea ID required for updates''), w)
         else
           (case json_body req of
              None \<Rightarrow> (catch_block body_rejected, w)
            | Some updateData \<Rightarrow>
                (case validateIdeaData updateData of
                   Inl err \<Rightarrow> (catch_block err, w)
                 | Inr updateErrors \<Rightarrow>
                     if length updateErrors > 0 then (validation_failed updateErrors, w)
                     else (case sanitized_or (get_prop updateData ''title'') JUndefined of
                             Inl err \<Rightarrow> (catch_block err, w)
                           | Inr title \<Rightarrow>
                               (case sanitized_or (get_prop updateData ''description'') JUndefined of
                                  Inl err \<Rightarrow> (catch_block err, w)
                                | Inr description \<Rightarrow>
                                    (case store_update
                                            (sanitizedUpdateData updateData title description)
                                            ideaId (user_id keyData) w of
                                       (None, w') \<Rightarrow>
                                         (respond 404
                                            (error_body ''Failed to update idea or idea not found''), w')
                                     | (Some updatedIdea, w') \<Rightarrow>
                                         (respond 200 (JObj [(''data'', JObj updatedIdea)]), w')))))))"

definition handle_delete :: "world \<Rightarrow> request \<Rightarrow> key_data \<Rightarrow> response \<times> world" where
  "handle_delete w req keyData =
     (let ideaId = last_segment (pathname req)
      in if ideaId = [] \<or> ideaId = ''ai-ideas'' then
           (respond 400 (error_body ''Idea ID required for deletion''), w)
         else
           (case store_update [(''status'', JStr ''archived'')] ideaId (user_id keyData) w of
              (None, w') \<Rightarrow>
                (respond 404 (error_body ''Failed to delete idea or idea not found''), w')
            | (Some deletedIdea, w') \<Rightarrow>
                (respond 200 (JObj [(''data'', JObj deletedIdea),
                                    (''message'', JStr ''Idea archived successfully'')]), w')))"

text \<open>The \<^verbatim>\<open>switch (req.method)\<close>.\<close>

definition dispatch :: "env \<Rightarrow> world \<Rightarrow> request \<Rightarrow> key_data \<Rightarrow> response \<times> world" where
  "dispatch e w req keyData =
     (if req_method req = ''GET'' then handle_get w req keyData
      else if req_method req = ''POST'' then handle_post e w req keyData
      else if req_method req = ''PUT'' then handle_put w req keyData
      else if req_method req = ''DELETE'' then handle_delete w req keyData
      else (respond 405 (error_body ''Method not allowed''), w))"

definition requiredPermission :: "request \<Rightarrow> string" where
  "requiredPermission req = (if map lower (req_method req) = ''get'' then ''read'' else ''write'')"

definition permitted :: "request \<Rightarrow> key_data \<Rightarrow> bool" where
  "permitted req keyData =
     (requiredPermission req \<in> set (permissions keyData) \<or> ''admin'' \<in> set (permissions keyData))"

text \<open>The handler passed to \<^verbatim>\<open>serve\<close>: one response per request, and the world after it.\<close>

definition serve :: "env \<Rightarrow> world \<Rightarrow> request \<Rightarrow> response \<times> world" where
  "serve e w req =
     (if req_method req = ''OPTIONS'' then (respond 200 JNull, w)
      else (case given (api_key_header req) of
              None \<Rightarrow> (respond 401 (error_body ''API key required in x-api-key header''), w)
            | Some apiKey \<Rightarrow>
                (case authenticateApiKey e apiKey of
                   Inl err \<Rightarrow> (catch_block err, w)
                 | Inr keyData \<Rightarrow>
                     if \<not> permitted req keyData then
                       (respond 403
                          (error_body (''Insufficient permissions. Required: '' @ requiredPermission req)),
                        w)
                     else (case checkRateLimit e (api_key_id keyData) ''ai-ideas''
                                  (rate_limit_per_hour keyData) of
                             Inl err \<Rightarrow> (catch_block err, w)
                           | Inr ok \<Rightarrow> dispatch e w req keyData))))"

section \<open>A concrete deployment, for evaluating the gateway\<close>

text \<open>Two owners \<open>A\<close> and \<open>B\<close> with read/write keys, a read-only key and a rate-limited key
  of \<open>A\<close>, an expired key, and a key on which the credential store fails.\<close>

definition key_A :: key_data where
  "key_A = \<lparr>api_key_id = ''kA'', is_valid = True, permissions = [''read'', ''write''],
            rate_limit_per_hour = 1000, user_id = ''A''\<rparr>"

definition key_B :: key_data where
  "key_B = \<lparr>api_key_id = ''kB'', is_valid = True, permissions = [''read'', ''write''],
            rate_limit_per_hour = 1000, user_id = ''B''\<rparr>"

definition key_limited :: key_data where
  "key_limited = \<lparr>api_key_id = ''kL'', is_valid = True, permissions = [''read'', ''write''],
                  rate_limit_per_hour = 1, user_id = ''A''\<rparr>"

definition key_expired :: key_data where
  "key_expired = \<lparr>api_key_id = ''kX'', is_valid = False, permissions = [''read'', ''write''],
                  rate_limit_per_hour = 1000, user_id = ''A''\<rparr>"

definition env0 :: env where
  "env0 =
     \<lparr>validate_api_key =
        (\<lambda>k. if k = ''iah_A'' then Data [key_A]
             else if k = ''iah_B'' then Data [key_B]
             else if k = ''iah_limited'' then Data [key_limited]
             else if k = ''iah_expired'' then Data [key_expired]
             else if k = ''iah_down'' then Failed
             else Data []),
      check_rate_limit = (\<lambda>keyId endpoint limit. Data (keyId \<noteq> ''kL'')),
      column_defaults = [(''id'', JStr ''i2''), (''status'', JStr ''idea''),
                         (''color'', JStr ''#FFF''), (''updated_at'', JStr ''2025-09-04'')]\<rparr>"

definition idea1 :: row where
  "idea1 = [(''id'', JStr ''i1''), (''user_id'', JStr ''A''), (''title'', JStr ''First''),
            (''description'', JStr ''notes''), (''status'', JStr ''idea''),
            (''updated_at'', JStr ''2025-09-03'')]"

definition world0 :: world where
  "world0 = \<lparr>ideas = [idea1], calls = []\<rparr>"

definition request_of ::
  "string \<Rightarrow> string \<Rightarrow> string \<Rightarrow> (string \<times> string) list \<Rightarrow> json option \<Rightarrow> request" where
  "request_of m k p q b =
     \<lparr>req_method = m, api_key_header = Some k, pathname = p, searchParams = q, json_body = b\<rparr>"

section \<open>Evaluation rules\<close>

lemmas string_eval = lower_def is_space_def trim_def starts_gt_def

lemmas sanitizer_eval =
  sanitizeMarkdown_def strip_markup_def dangerousTags_def match_tag_def
  match_script_block_def match_literal_def max_content_length_def

lemmas validator_eval =
  validateIdeaData_def check_def title_missing_def title_too_long_def description_bad_def
  status_bad_def tags_bad_def color_bad_def color_regex_test_def is_hex_def valid_statuses_def
  msg_title_required_def msg_title_length_def msg_description_def msg_status_def msg_tags_def
  msg_color_def

lemmas store_eval =
  store_select_single_def store_select_range_def store_insert_def store_update_def
  logged_def single_def matches_def column_def apply_patch_def known_columns_def columns_def
  selected_def newest_first_def text_of_def ci_contains_def

lemmas gateway_eval =
  serve_def dispatch_def handle_get_def handle_post_def handle_put_def handle_delete_def
  permitted_def requiredPermission_def given_def authenticateApiKey_def checkRateLimit_def
  startsWith_def catch_block_def respond_def error_body_def last_segment_def
  validation_failed_def sanitized_or_def sanitize_value_def sanitizedUpdateData_def
  entries_def param_def param_or_def limit_of_def offset_of_def math_min_def num_json_def
  parseInt_def parse_radix_def digits_value_def is_digit_def digit_value_def Let_def

lemmas auth_eval =
  request_of_def given_def authenticateApiKey_def startsWith_def env0_def key_A_def key_B_def
  permitted_def requiredPermission_def lower_def checkRateLimit_def last_segment_def

lemmas deployment_eval =
  env0_def world0_def idea1_def key_A_def key_B_def key_limited_def key_expired_def
  request_of_def

section \<open>Authentication and rate-limit failures\<close>

lemma authenticate_messages:
  "authenticateApiKey e apiKey = Inl err \<Longrightarrow>
   message err \<in> set [''Invalid API key format'', ''Authentication failed'', ''Invalid API key'',
                      ''API key is expired or inactive'']"
  by (auto simp: authenticateApiKey_def split: if_splits reply.splits list.splits)

text \<open>
  C3 (authentication failures yield HTTP 401).  On the code the claim fails: when a key is
  present and \<^verbatim>\<open>authenticateApiKey\<close> throws, for any of its four reasons, the error
  reaches the \<^verbatim>\<open>catch\<close> block, and the response is a 500 carrying the message; the
  world is untouched and no store call is made.  Only a missing key is answered 401.
\<close>

theorem auth_failure_answers_500:
  assumes "req_method req \<noteq> ''OPTIONS''"
    and "given (api_key_header req) = Some apiKey"
    and "authenticateApiKey e apiKey = Inl err"
  shows "serve e w req = (respond 500 (error_body (message err)), w) \<and>
         message err \<in> set [''Invalid API key format'', ''Authentication failed'',
                            ''Invalid API key'', ''API key is expired or inactive'']"
proof -
  have m: "message err \<in> set [''Invalid API key format'', ''Authentication failed'',
                            ''Invalid API key'', ''API key is expired or inactive'']"
    using assms(3) by (rule authenticate_messages)
  then have "message err \<noteq> []" by auto
  then have "catch_block err = respond 500 (error_body (message err))"
    by (simp add: catch_block_def)
  with assms m show ?thesis by (simp add: serve_def)
qed

theorem auth_failure_answers_500_witness:
  "serve env0 world0 (request_of ''GET'' ''bad-key'' ''/ai-ideas'' [] None) =
     (respond 500 (error_body ''Invalid API key format''), world0) \<and>
   serve env0 world0 (request_of ''GET'' ''iah_down'' ''/ai-ideas'' [] None) =
     (respond 500 (error_body ''Authentication failed''), world0) \<and>
   serve env0 world0 (request_of ''GET'' ''iah_nobody'' ''/ai-ideas'' [] None) =
     (respond 500 (error_body ''Invalid API key''), world0) \<and>
   serve env0 world0 (request_of ''GET'' ''iah_expired'' ''/ai-ideas'' [] None) =
     (respond 500 (error_body ''API key is expired or inactive''), world0)"
  using auth_failure_answers_500 [of "request_of ''GET'' ''bad-key'' ''/ai-ideas'' [] None"
      "''bad-key''" env0 "Thrown ''Invalid API key format''" world0]
    auth_failure_answers_500 [of "request_of ''GET'' ''iah_down'' ''/ai-ideas'' [] None"
      "''iah_down''" env0 "Thrown ''Authentication failed''" world0]
    auth_failure_answers_500 [of "request_of ''GET'' ''iah_nobody'' ''/ai-ideas'' [] None"
      "''iah_nobody''" env0 "Thrown ''Invalid API key''" world0]
    auth_failure_answers_500 [of "request_of ''GET'' ''iah_expired'' ''/ai-ideas'' [] None"
      "''iah_expired''" env0 "Thrown ''API key is expired or inactive''" world0]
  by (simp add: request_of_def given_def authenticateApiKey_def startsWith_def env0_def
      key_expired_def)

text \<open>
  C4 (rate-limit denial yields HTTP 429).  On the code the claim fails: when the limiter
  answers \<^verbatim>\<open>false\<close> for an authenticated and permitted request, \<^verbatim>\<open>checkRateLimit\<close> throws,
  and the \<^verbatim>\<open>catch\<close> block answers 500 with the message \<^verbatim>\<open>Rate limit exceeded\<close>; the world
  is untouched and no store call is made.
\<close>

theorem rate_limit_denial_answers_500:
  assumes "req_method req \<noteq> ''OPTIONS''"
    and "given (api_key_header req) = Some apiKey"
    and "authenticateApiKey e apiKey = Inr keyData"
    and "permitted req keyData"
    and "check_rate_limit e (api_key_id keyData) ''ai-ideas'' (rate_limit_per_hour keyData) =
           Data False"
  shows "serve e w req = (respond 500 (error_body ''Rate limit exceeded''), w)"
  using assms by (simp add: serve_def checkRateLimit_def catch_block_def)

theorem rate_limit_denial_answers_500_witness:
  "serve env0 world0 (request_of ''GET'' ''iah_limited'' ''/ai-ideas'' [] None) =
     (respond 500 (error_body ''Rate limit exceeded''), world0)"
  using rate_limit_denial_answers_500 [of "request_of ''GET'' ''iah_limited'' ''/ai-ideas'' [] None"
      "''iah_limited''" env0 key_limited world0]
  by (simp add: request_of_def given_def authenticateApiKey_def startsWith_def env0_def
      key_limited_def permitted_def requiredPermission_def lower_def)

section \<open>The sanitizer on nested occurrences\<close>

text \<open>
  C6 (sanitizer idempotence and masking completeness).  On the code the claim fails: each
  replacement is a single pass from the left, so deleting the inner \<^verbatim>\<open>javascript:\<close> of
  \<^verbatim>\<open>javajavascript:script:\<close> leaves \<^verbatim>\<open>javascript:\<close> in the output; a second application
  deletes it, so the function is not idempotent either.
\<close>

theorem sanitizer_leaves_javascript_url:
  "sanitizeMarkdown ''javajavascript:script:'' = Inr ''javascript:'' \<and>
   sanitizeMarkdown ''javascript:'' = Inr []"
  by (simp add: sanitizer_eval string_eval)

section \<open>The PUT branch\<close>

text \<open>
  C2 (ownerId immutability under PUT).  On the code the claim fails: the update object is
  the spread of the request body, so a \<^verbatim>\<open>user_id\<close> in the body is sent to the store as
  part of the patch.  Owner \<open>A\<close>'s key moves \<open>A\<close>'s record to owner \<open>B\<close>.
\<close>

theorem put_reassigns_owner:
  "resp_status (fst (serve env0 world0
      (request_of ''PUT'' ''iah_A'' ''/ai-ideas/i1'' []
         (Some (JObj [(''title'', JStr ''Renamed''), (''user_id'', JStr ''B'')]))))) = 200 \<and>
   map (\<lambda>r. column r ''user_id'') (ideas world0) = [JStr ''A''] \<and>
   map (\<lambda>r. column r ''user_id'') (ideas (snd (serve env0 world0
      (request_of ''PUT'' ''iah_A'' ''/ai-ideas/i1'' []
         (Some (JObj [(''title'', JStr ''Renamed''), (''user_id'', JStr ''B'')])))))) =
     [JStr ''B'']"
  by (simp add: gateway_eval deployment_eval validator_eval sanitizer_eval store_eval string_eval)

lemma validate_no_title:
  assumes "d \<noteq> JNull" "d \<noteq> JUndefined" "get_prop d ''title'' = JUndefined"
  shows "\<exists>errs. validateIdeaData d = Inr (msg_title_required # errs)"
  using assms by (simp add: validateIdeaData_def check_def title_missing_def)

text \<open>
  C5 (PUT validates only present fields).  On the code the claim fails: the PUT branch
  runs the same \<^verbatim>\<open>validateIdeaData\<close> as POST, whose first rule requires a title.  Every
  PUT whose body has no \<^verbatim>\<open>title\<close> is answered 400 with the title message first among the
  details, and nothing is sent to the store.
\<close>

theorem put_without_title_rejected:
  assumes "req_method req = ''PUT''"
    and "given (api_key_header req) = Some apiKey"
    and "authenticateApiKey e apiKey = Inr keyData"
    and "permitted req keyData"
    and "checkRateLimit e (api_key_id keyData) ''ai-ideas'' (rate_limit_per_hour keyData) = Inr ok"
    and "last_segment (pathname req) \<noteq> []"
    and "last_segment (pathname req) \<noteq> ''ai-ideas''"
    and "json_body req = Some d"
    and "d \<noteq> JNull" and "d \<noteq> JUndefined"
    and "get_prop d ''title'' = JUndefined"
  shows "\<exists>errs. serve e w req = (validation_failed (msg_title_required # errs), w)"
proof -
  obtain errs where v: "validateIdeaData d = Inr (msg_title_required # errs)"
    using validate_no_title [OF assms(9-11)] by blast
  have "serve e w req = handle_put w req keyData"
    using assms(1-5) by (simp add: serve_def dispatch_def)
  also have "\<dots> = (validation_failed (msg_title_required # errs), w)"
    using assms(6-8) v by (simp add: handle_put_def)
  finally show ?thesis by blast
qed

theorem put_without_title_rejected_witness:
  "serve env0 world0
     (request_of ''PUT'' ''iah_A'' ''/ai-ideas/i1'' []
        (Some (JObj [(''status'', JStr ''research'')]))) =
   (validation_failed [msg_title_required], world0)"
proof -
  have "\<exists>errs. serve env0 world0
     (request_of ''PUT'' ''iah_A'' ''/ai-ideas/i1'' []
        (Some (JObj [(''status'', JStr ''research'')]))) =
   (validation_failed (msg_title_required # errs), world0)"
    by (rule put_without_title_rejected [where apiKey = "''iah_A''" and keyData = key_A
          and ok = True and d = "JObj [(''status'', JStr ''research'')]"])
       (simp_all add: request_of_def given_def authenticateApiKey_def startsWith_def env0_def
          key_A_def permitted_def requiredPermission_def lower_def checkRateLimit_def
          last_segment_def)
  then show ?thesis
    by (simp add: gateway_eval deployment_eval validator_eval string_eval)
qed

section \<open>The store, seen from the gateway\<close>

lemma map_of_apply_patch_other:
  "k \<notin> fst ` set patch \<Longrightarrow> map_of (apply_patch patch r) k = map_of r k"
  unfolding apply_patch_def
  by (induction patch arbitrary: r) (auto simp: AList.update_conv')

lemma map_of_apply_patch:
  "distinct (map fst patch) \<Longrightarrow> map_of (apply_patch patch r) = map_of r ++ map_of patch"
  unfolding apply_patch_def
proof (induction patch arbitrary: r)
  case Nil
  then show ?case by simp
next
  case (Cons kv patch)
  obtain k v where kv: "kv = (k, v)" by (cases kv)
  from Cons.prems kv have notin: "map_of patch k = None"
    by (simp add: map_of_eq_None_iff)
  have "map_of (fold (\<lambda>kv. AList.update (fst kv) (snd kv)) patch (AList.update k v r)) =
        map_of (AList.update k v r) ++ map_of patch"
    using Cons.IH [of "AList.update k v r"] Cons.prems by simp
  then show ?case
    using notin kv by (auto simp: AList.update_conv' map_add_def fun_eq_iff split: option.splits)
qed

lemma column_apply_patch_other:
  "k \<notin> fst ` set patch \<Longrightarrow> column (apply_patch patch r) k = column r k"
  by (simp add: column_def map_of_apply_patch_other)

lemma column_apply_patch:
  "distinct (map fst patch) \<Longrightarrow>
   column (apply_patch patch r) k = (case map_of patch k of Some v \<Rightarrow> v | None \<Rightarrow> column r k)"
  by (simp add: column_def map_of_apply_patch map_add_def split: option.splits)

lemma matches_owner: "matches ideaId owner r \<Longrightarrow> column r ''user_id'' = JStr owner"
  by (simp add: matches_def)

lemma matches_apply_patch:
  "''id'' \<notin> fst ` set patch \<Longrightarrow> ''user_id'' \<notin> fst ` set patch \<Longrightarrow>
   matches ideaId owner (apply_patch patch r) = matches ideaId owner r"
  by (simp add: matches_def column_apply_patch_other)

lemma single_Some: "single rs = Some r \<longleftrightarrow> rs = [r]"
  by (auto simp: single_def split: list.splits)

text \<open>What the store does on an update, seen from outside.\<close>

lemma store_update_calls:
  "calls (snd (store_update patch ideaId owner w)) = calls w @ [Update patch ideaId owner]"
  by (simp add: store_update_def logged_def Let_def split: option.splits)

lemma store_update_failure:
  "fst (store_update patch ideaId owner w) = None \<Longrightarrow>
   ideas (snd (store_update patch ideaId owner w)) = ideas w"
  by (auto simp: store_update_def logged_def Let_def split: option.splits if_splits)

lemma store_update_length:
  "length (ideas (snd (store_update patch ideaId owner w))) = length (ideas w)"
  by (simp add: store_update_def logged_def Let_def split: option.splits)

lemma store_update_frame:
  assumes "i < length (ideas w)"
    and "ideas (snd (store_update patch ideaId owner w)) ! i \<noteq> ideas w ! i"
  shows "column (ideas w ! i) ''user_id'' = JStr owner \<and> column (ideas w ! i) ''id'' = JStr ideaId"
  using assms
  by (auto simp: store_update_def logged_def Let_def matches_def split: option.splits if_splits)

lemma filter_map_same:
  assumes "\<And>x. x \<in> set xs \<Longrightarrow> P (f x) = P x"
  shows "filter P (map f xs) = map f (filter P xs)"
  using assms by (induction xs) auto

lemma store_update_success:
  assumes "known_columns patch"
    and "single (filter (matches ideaId owner) (ideas w)) = Some r"
  shows "store_update patch ideaId owner w =
           (Some (apply_patch patch r),
            \<lparr>ideas = map (\<lambda>x. if matches ideaId owner x then apply_patch patch x else x) (ideas w),
             calls = calls w @ [Update patch ideaId owner]\<rparr>)"
  using assms by (simp add: store_update_def logged_def Let_def)

lemma store_update_then_single:
  assumes "''id'' \<notin> fst ` set patch" and "''user_id'' \<notin> fst ` set patch"
    and "single (filter (matches ideaId owner) (ideas w)) = Some r"
  shows "single (filter (matches ideaId owner)
           (map (\<lambda>x. if matches ideaId owner x then apply_patch patch x else x) (ideas w))) =
         Some (apply_patch patch r)"
proof -
  let ?f = "\<lambda>x. if matches ideaId owner x then apply_patch patch x else x"
  have "filter (matches ideaId owner) (map ?f (ideas w)) =
        map ?f (filter (matches ideaId owner) (ideas w))"
    by (rule filter_map_same) (simp add: matches_apply_patch [OF assms(1,2)])
  also have "\<dots> = map ?f [r]"
    using assms(3) by (simp add: single_Some)
  also have "\<dots> = [apply_patch patch r]"
  proof -
    have "r \<in> set (filter (matches ideaId owner) (ideas w))"
      using assms(3) by (simp add: single_Some)
    then have "matches ideaId owner r" by simp
    then show ?thesis by simp
  qed
  finally show ?thesis by (simp add: single_Some)
qed

section \<open>Logical delete\<close>

lemma serve_authenticated:
  assumes "req_method req \<noteq> ''OPTIONS''"
    and "given (api_key_header req) = Some apiKey"
    and "authenticateApiKey e apiKey = Inr keyData"
    and "permitted req keyData"
    and "checkRateLimit e (api_key_id keyData) ''ai-ideas'' (rate_limit_per_hour keyData) = Inr ok"
  shows "serve e w req = dispatch e w req keyData"
  using assms by (simp add: serve_def)

lemma handle_get_single:
  assumes "last_segment (pathname req) = ideaId" and "ideaId \<noteq> []" and "ideaId \<noteq> ''ai-ideas''"
  shows "handle_get w req keyData =
     (case single (filter (matches ideaId (user_id keyData)) (ideas w)) of
        None \<Rightarrow> (respond 404 (error_body ''Idea not found''),
                 logged (SelectSingle ideaId (user_id keyData)) w)
      | Some idea \<Rightarrow> (respond 200 (JObj [(''data'', JObj idea)]),
                 logged (SelectSingle ideaId (user_id keyData)) w))"
  using assms by (simp add: handle_get_def store_select_single_def split: option.splits)


text \<open>
  C7 (logical delete).  A DELETE by an authenticated, permitted and admitted key on a path
  naming an id: when exactly one record has that id and the key's owner, the response is 200
  with that record, its status set to \<^verbatim>\<open>archived\<close>; the table keeps its length and holds
  the archived record; and a following GET of the same id by a key of the same owner
  returns 200 with the archived record.  Otherwise (no such record, or not owned) the
  response is 404 and the table is unchanged.
\<close>

theorem delete_is_logical:
  assumes "req_method req = ''DELETE''"
    and "given (api_key_header req) = Some apiKey"
    and "authenticateApiKey e apiKey = Inr keyData"
    and "permitted req keyData"
    and "checkRateLimit e (api_key_id keyData) ''ai-ideas'' (rate_limit_per_hour keyData) = Inr ok"
    and "last_segment (pathname req) = ideaId"
    and "ideaId \<noteq> []" and "ideaId \<noteq> ''ai-ideas''"
    and "req_method req' = ''GET''"
    and "given (api_key_header req') = Some apiKey'"
    and "authenticateApiKey e' apiKey' = Inr keyData'"
    and "permitted req' keyData'"
    and "checkRateLimit e' (api_key_id keyData') ''ai-ideas'' (rate_limit_per_hour keyData') = Inr ok'"
    and "last_segment (pathname req') = ideaId"
    and "user_id keyData' = user_id keyData"
  shows "(case single (filter (matches ideaId (user_id keyData)) (ideas w)) of
            None \<Rightarrow>
              fst (serve e w req) = respond 404 (error_body ''Failed to delete idea or idea not found'') \<and>
              ideas (snd (serve e w req)) = ideas w
          | Some r \<Rightarrow>
              fst (serve e w req) =
                respond 200 (JObj [(''data'', JObj (AList.update ''status'' (JStr ''archived'') r)),
                                   (''message'', JStr ''Idea archived successfully'')]) \<and>
              column (AList.update ''status'' (JStr ''archived'') r) ''status'' = JStr ''archived'' \<and>
              length (ideas (snd (serve e w req))) = length (ideas w) \<and>
              AList.update ''status'' (JStr ''archived'') r \<in> set (ideas (snd (serve e w req))) \<and>
              fst (serve e' (snd (serve e w req)) req') =
                respond 200 (JObj [(''data'', JObj (AList.update ''status'' (JStr ''archived'') r))]))"
proof -
  let ?patch = "[(''status'', JStr ''archived'')]"
  let ?owner = "user_id keyData"
  have s: "serve e w req = handle_delete w req keyData"
    using assms(1-5) by (simp add: serve_def dispatch_def)
  have kc: "known_columns ?patch"
    by (simp add: known_columns_def columns_def)
  have ap: "\<And>x. apply_patch ?patch x = AList.update ''status'' (JStr ''archived'') x"
    by (simp add: apply_patch_def)
  show ?thesis
  proof (cases "single (filter (matches ideaId ?owner) (ideas w))")
    case None
    then have "handle_delete w req keyData =
        (respond 404 (error_body ''Failed to delete idea or idea not found''),
         logged (Update ?patch ideaId ?owner) w)"
      using assms(6-8) kc by (simp add: handle_delete_def store_update_def Let_def)
    with s None show ?thesis by (simp add: logged_def)
  next
    case (Some r)
    let ?r' = "AList.update ''status'' (JStr ''archived'') r"
    let ?w' = "\<lparr>ideas = map (\<lambda>x. if matches ideaId ?owner x then apply_patch ?patch x else x) (ideas w),
                calls = calls w @ [Update ?patch ideaId ?owner]\<rparr>"
    have del: "serve e w req =
        (respond 200 (JObj [(''data'', JObj ?r'), (''message'', JStr ''Idea archived successfully'')]), ?w')"
      using s assms(6-8) store_update_success [OF kc Some]
      by (simp add: handle_delete_def ap)
    have r_in: "r \<in> set (ideas w)" and r_m: "matches ideaId ?owner r"
    proof -
      have "r \<in> set (filter (matches ideaId ?owner) (ideas w))"
        using Some by (simp add: single_Some)
      then show "r \<in> set (ideas w)" and "matches ideaId ?owner r" by simp_all
    qed
    have kept: "?r' \<in> set (ideas ?w')"
      using r_in r_m by (force simp: ap)
    have after: "single (filter (matches ideaId ?owner) (ideas ?w')) = Some ?r'"
      using store_update_then_single [of ?patch ideaId ?owner w r] Some by (simp add: ap)
    have g: "serve e' ?w' req' = handle_get ?w' req' keyData'"
      using assms(9-13) by (simp add: serve_def dispatch_def)
    have get: "fst (serve e' ?w' req') = respond 200 (JObj [(''data'', JObj ?r')])"
      using handle_get_single [OF assms(14) assms(7,8), of ?w' keyData'] after assms(15)
      by (simp add: g)
    have st: "column ?r' ''status'' = JStr ''archived''"
      by (simp add: column_def AList.update_conv')
    show ?thesis
      using Some del kept get st by simp
  qed
qed

theorem delete_is_logical_witness:
  "fst (serve env0 world0 (request_of ''DELETE'' ''iah_A'' ''/ai-ideas/i1'' [] None)) =
     respond 200 (JObj [(''data'', JObj (AList.update ''status'' (JStr ''archived'') idea1)),
                        (''message'', JStr ''Idea archived successfully'')]) \<and>
   length (ideas (snd (serve env0 world0
      (request_of ''DELETE'' ''iah_A'' ''/ai-ideas/i1'' [] None)))) = 1 \<and>
   fst (serve env0
          (snd (serve env0 world0 (request_of ''DELETE'' ''iah_A'' ''/ai-ideas/i1'' [] None)))
          (request_of ''GET'' ''iah_A'' ''/ai-ideas/i1'' [] None)) =
     respond 200 (JObj [(''data'', JObj (AList.update ''status'' (JStr ''archived'') idea1))]) \<and>
   column (AList.update ''status'' (JStr ''archived'') idea1) ''status'' = JStr ''archived'' \<and>
   fst (serve env0 world0 (request_of ''DELETE'' ''iah_B'' ''/ai-ideas/i1'' [] None)) =
     respond 404 (error_body ''Failed to delete idea or idea not found'') \<and>
   ideas (snd (serve env0 world0 (request_of ''DELETE'' ''iah_B'' ''/ai-ideas/i1'' [] None))) =
     ideas world0"
proof -
  let ?del = "\<lambda>k. request_of ''DELETE'' k ''/ai-ideas/i1'' [] None"
  let ?get = "request_of ''GET'' ''iah_A'' ''/ai-ideas/i1'' [] None"
  let ?getB = "request_of ''GET'' ''iah_B'' ''/ai-ideas/i1'' [] None"
  have own: "single (filter (matches ''i1'' (user_id key_A)) (ideas world0)) = Some idea1"
    by (simp add: single_def matches_def column_def world0_def idea1_def key_A_def)
  have other: "single (filter (matches ''i1'' (user_id key_B)) (ideas world0)) = None"
    by (simp add: single_def matches_def column_def world0_def idea1_def key_B_def)
  have a: "(case single (filter (matches ''i1'' (user_id key_A)) (ideas world0)) of
            None \<Rightarrow>
              fst (serve env0 world0 (?del ''iah_A'')) =
                respond 404 (error_body ''Failed to delete idea or idea not found'') \<and>
              ideas (snd (serve env0 world0 (?del ''iah_A''))) = ideas world0
          | Some r \<Rightarrow>
              fst (serve env0 world0 (?del ''iah_A'')) =
                respond 200 (JObj [(''data'', JObj (AList.update ''status'' (JStr ''archived'') r)),
                                   (''message'', JStr ''Idea archived successfully'')]) \<and>
              column (AList.update ''status'' (JStr ''archived'') r) ''status'' = JStr ''archived'' \<and>
              length (ideas (snd (serve env0 world0 (?del ''iah_A'')))) = length (ideas world0) \<and>
              AList.update ''status'' (JStr ''archived'') r \<in> set (ideas (snd (serve env0 world0 (?del ''iah_A'')))) \<and>
              fst (serve env0 (snd (serve env0 world0 (?del ''iah_A''))) ?get) =
                respond 200 (JObj [(''data'', JObj (AList.update ''status'' (JStr ''archived'') r))]))"
    by (rule delete_is_logical [where apiKey = "''iah_A''" and keyData = key_A and ok = True
          and apiKey' = "''iah_A''" and keyData' = key_A and ok' = True])
       (simp_all add: auth_eval)
  have b: "(case single (filter (matches ''i1'' (user_id key_B)) (ideas world0)) of
            None \<Rightarrow>
              fst (serve env0 world0 (?del ''iah_B'')) =
                respond 404 (error_body ''Failed to delete idea or idea not found'') \<and>
              ideas (snd (serve env0 world0 (?del ''iah_B''))) = ideas world0
          | Some r \<Rightarrow>
              fst (serve env0 world0 (?del ''iah_B'')) =
                respond 200 (JObj [(''data'', JObj (AList.update ''status'' (JStr ''archived'') r)),
                                   (''message'', JStr ''Idea archived successfully'')]) \<and>
              column (AList.update ''status'' (JStr ''archived'') r) ''status'' = JStr ''archived'' \<and>
              length (ideas (snd (serve env0 world0 (?del ''iah_B'')))) = length (ideas world0) \<and>
              AList.update ''status'' (JStr ''archived'') r \<in> set (ideas (snd (serve env0 world0 (?del ''iah_B'')))) \<and>
              fst (serve env0 (snd (serve env0 world0 (?del ''iah_B''))) ?getB) =
                respond 200 (JObj [(''data'', JObj (AList.update ''status'' (JStr ''archived'') r))]))"
    by (rule delete_is_logical [where apiKey = "''iah_B''" and keyData = key_B and ok = True
          and apiKey' = "''iah_B''" and keyData' = key_B and ok' = True and e' = env0])
       (simp_all add: auth_eval)
  have l: "length (ideas world0) = 1" by (simp add: world0_def)
  from a b show ?thesis unfolding own other using l by simp
qed

section \<open>Owner isolation\<close>

lemma scoped_refl: "scoped owner w w"
  by simp

lemma scoped_logged:
  assumes "call_owner c = JStr owner"
  shows "scoped owner w (logged c w)"
  using assms by (simp add: logged_def)

lemma returned_respond_error [simp]: "returned (respond st (error_body m)) = []"
  by (simp add: returned_def respond_def error_body_def)

lemma returned_catch [simp]: "returned (catch_block err) = []"
  by (simp add: catch_block_def)

lemma returned_validation_failed [simp]: "returned (validation_failed errs) = []"
  by (simp add: returned_def validation_failed_def respond_def)

lemma returned_one [simp]:
  "returned (respond st (JObj ((''data'', JObj idea) # rest))) = [idea]"
  by (simp add: returned_def respond_def)

lemma returned_many [simp]:
  "returned (respond st (JObj ((''data'', JArr (map JObj rs)) # rest))) = rs"
  by (simp add: returned_def respond_def) (induction rs, auto)

lemma single_in: "single rs = Some r \<Longrightarrow> r \<in> set rs"
  by (simp add: single_Some)

lemma set_newest_first [simp]: "set (newest_first rs) = set rs"
  by (simp add: newest_first_def)

lemma selected_owner: "selected owner st search r \<Longrightarrow> column r ''user_id'' = JStr owner"
  by (simp add: selected_def)

lemma store_select_range_rows:
  assumes "store_select_range owner off lim st search w = (Some rs, w')"
  shows "w' = logged (SelectRange owner off lim st search) w \<and>
         set rs \<subseteq> {r \<in> set (ideas w). column r ''user_id'' = JStr owner}"
proof -
  from assms obtain o' l' where ol: "off = Some o'" "lim = Some l'"
    and rs: "rs = take (nat l') (drop (nat o') (newest_first (filter (selected owner st search) (ideas w))))"
    and w': "w' = logged (SelectRange owner off lim st search) w"
    by (auto simp: store_select_range_def Let_def split: option.splits if_splits)
  have "set rs \<subseteq> set (filter (selected owner st search) (ideas w))"
    unfolding rs using set_take_subset set_drop_subset set_newest_first
    by (metis subset_trans)
  then show ?thesis using w' by (auto dest: selected_owner)
qed

lemma store_select_range_world:
  "snd (store_select_range owner off lim st search w) = logged (SelectRange owner off lim st search) w"
  by (auto simp: store_select_range_def Let_def split: option.splits if_splits)

lemma handle_get_scoped:
  "scoped (user_id keyData) w (snd (handle_get w req keyData)) \<and>
   ideas (snd (handle_get w req keyData)) = ideas w \<and>
   set (returned (fst (handle_get w req keyData))) \<subseteq>
     {r \<in> set (ideas w). column r ''user_id'' = JStr (user_id keyData)}"
proof (cases "last_segment (pathname req) \<noteq> [] \<and> last_segment (pathname req) \<noteq> ''ai-ideas''")
  case True
  then have g: "handle_get w req keyData =
     (case single (filter (matches (last_segment (pathname req)) (user_id keyData)) (ideas w)) of
        None \<Rightarrow> (respond 404 (error_body ''Idea not found''),
                 logged (SelectSingle (last_segment (pathname req)) (user_id keyData)) w)
      | Some idea \<Rightarrow> (respond 200 (JObj [(''data'', JObj idea)]),
                 logged (SelectSingle (last_segment (pathname req)) (user_id keyData)) w))"
    by (simp add: handle_get_single)
  show ?thesis
  proof (cases "single (filter (matches (last_segment (pathname req)) (user_id keyData)) (ideas w))")
    case None
    with g show ?thesis by (simp add: logged_def call_owner_def)
  next
    case (Some idea)
    then have "idea \<in> set (ideas w)" "matches (last_segment (pathname req)) (user_id keyData) idea"
      using single_in [OF Some] by simp_all
    with g Some show ?thesis by (simp add: logged_def call_owner_def matches_owner)
  qed
next
  case False
  let ?q = "store_select_range (user_id keyData) (offset_of req) (limit_of req)
              (given (param req ''status'')) (given (param req ''search'')) w"
  have w': "snd ?q = logged (SelectRange (user_id keyData) (offset_of req) (limit_of req)
              (given (param req ''status'')) (given (param req ''search''))) w"
    by (rule store_select_range_world)
  show ?thesis
  proof (cases "fst ?q")
    case None
    then have "handle_get w req keyData = (respond 500 (error_body ''Failed to fetch ideas''), snd ?q)"
      using False by (cases ?q) (auto simp: handle_get_def)
    then show ?thesis using w' by (simp add: logged_def call_owner_def)
  next
    case (Some rs)
    then have q: "?q = (Some rs, snd ?q)" by (cases ?q) simp
    have h: "handle_get w req keyData =
        (respond 200
           (JObj [(''data'', JArr (map JObj rs)),
                  (''meta'', JObj [(''limit'', num_json (limit_of req)),
                                   (''offset'', num_json (offset_of req)),
                                   (''count'', JNum (int (length rs)))])]), snd ?q)"
      using False q by (cases ?q) (auto simp: handle_get_def)
    have "set rs \<subseteq> {r \<in> set (ideas w). column r ''user_id'' = JStr (user_id keyData)}"
      using store_select_range_rows [OF q] by simp
    then show ?thesis using h w' by (simp add: logged_def call_owner_def)
  qed
qed

lemma status_simps [simp]:
  "resp_status (respond st b) = st"
  "resp_status (catch_block err) = 500"
  "resp_status (validation_failed errs) = 400"
  by (simp_all add: respond_def catch_block_def validation_failed_def)

lemma distinct_entries: "distinct (map fst (entries d))"
  by (simp add: entries_def AList.distinct_clearjunk split: json.splits)

lemma store_insert_scoped:
  assumes "map_of obj ''user_id'' = Some (JStr owner)" and "distinct (map fst obj)"
  shows "scoped owner w (snd (store_insert e obj w)) \<and>
         (case fst (store_insert e obj w) of
            None \<Rightarrow> ideas (snd (store_insert e obj w)) = ideas w
          | Some r \<Rightarrow> ideas (snd (store_insert e obj w)) = ideas w @ [r] \<and>
                      column r ''user_id'' = JStr owner)"
  using assms
  by (simp add: store_insert_def logged_def Let_def call_owner_def column_apply_patch nth_append)

lemma handle_post_shape:
  "(snd (handle_post e w req keyData) = w \<and> resp_status (fst (handle_post e w req keyData)) \<noteq> 201 \<and>
    returned (fst (handle_post e w req keyData)) = []) \<or>
   (\<exists>obj. map_of obj ''user_id'' = Some (JStr (user_id keyData)) \<and> distinct (map fst obj) \<and>
      handle_post e w req keyData =
        (case store_insert e obj w of
           (None, w') \<Rightarrow> (respond 500 (error_body ''Failed to create idea''), w')
         | (Some newIdea, w') \<Rightarrow> (respond 201 (JObj [(''data'', JObj newIdea)]), w')))"
proof -
  have d: "\<And>a b c d. distinct (map fst (AList.update ''user_id'' a (AList.update ''description'' b
              (AList.update ''title'' c (entries d)))))"
    by (intro AList.distinct_update distinct_entries)
  have m: "\<And>a X. map_of (AList.update ''user_id'' a X) ''user_id'' = Some a"
    by (simp add: AList.update_conv')
  show ?thesis
    unfolding handle_post_def
    by (auto split: option.splits sum.splits simp del: AList.clearjunk.simps intro!: exI d m)
qed

lemma handle_post_scoped:
  "scoped (user_id keyData) w (snd (handle_post e w req keyData)) \<and>
   (if resp_status (fst (handle_post e w req keyData)) = 201
    then \<exists>r. ideas (snd (handle_post e w req keyData)) = ideas w @ [r] \<and>
             column r ''user_id'' = JStr (user_id keyData) \<and>
             returned (fst (handle_post e w req keyData)) = [r]
    else ideas (snd (handle_post e w req keyData)) = ideas w)"
proof -
  consider
    (same) "snd (handle_post e w req keyData) = w"
      "resp_status (fst (handle_post e w req keyData)) \<noteq> 201"
  | (ins) obj where "map_of obj ''user_id'' = Some (JStr (user_id keyData))" "distinct (map fst obj)"
      "handle_post e w req keyData =
        (case store_insert e obj w of
           (None, w') \<Rightarrow> (respond 500 (error_body ''Failed to create idea''), w')
         | (Some newIdea, w') \<Rightarrow> (respond 201 (JObj [(''data'', JObj newIdea)]), w'))"
    using handle_post_shape [of e w req keyData] by blast
  then show ?thesis
  proof cases
    case same
    then show ?thesis by simp
  next
    case ins
    obtain res w' where si: "store_insert e obj w = (res, w')" by (cases "store_insert e obj w")
    have fs: "fst (store_insert e obj w) = res" "snd (store_insert e obj w) = w'"
      using si by simp_all
    have sc: "scoped (user_id keyData) w w'"
      using store_insert_scoped [OF ins(1,2), where w = w and e = e] unfolding fs by blast
    have rows: "(case res of None \<Rightarrow> ideas w' = ideas w
                  | Some r \<Rightarrow> ideas w' = ideas w @ [r] \<and> column r ''user_id'' = JStr (user_id keyData))"
      using store_insert_scoped [OF ins(1,2), where w = w and e = e] unfolding fs by blast
    show ?thesis
    proof (cases res)
      case None
      with ins(3) si sc rows show ?thesis by simp
    next
      case (Some r)
      with ins(3) si sc rows show ?thesis by simp
    qed
  qed
qed

lemma store_update_scoped:
  "scoped owner w (snd (store_update patch ideaId owner w)) \<and>
   length (ideas (snd (store_update patch ideaId owner w))) = length (ideas w)"
  using store_update_frame [of _ w patch ideaId owner]
  by (auto simp: store_update_calls store_update_length call_owner_def)

lemma handle_put_world:
  "snd (handle_put w req keyData) = w \<or>
   (\<exists>patch. snd (handle_put w req keyData) =
      snd (store_update patch (last_segment (pathname req)) (user_id keyData) w))"
  unfolding handle_put_def Let_def
  by (auto split: option.splits sum.splits prod.splits) (metis snd_conv)+

lemma handle_delete_world:
  "snd (handle_delete w req keyData) =
     (if last_segment (pathname req) = [] \<or> last_segment (pathname req) = ''ai-ideas'' then w
      else snd (store_update [(''status'', JStr ''archived'')] (last_segment (pathname req))
                  (user_id keyData) w))"
  unfolding handle_delete_def Let_def
  by (auto split: option.splits prod.splits)

lemma handle_put_scoped:
  "scoped (user_id keyData) w (snd (handle_put w req keyData)) \<and>
   length (ideas (snd (handle_put w req keyData))) = length (ideas w)"
  using handle_put_world [of w req keyData]
    store_update_scoped [where owner = "user_id keyData" and w = w]
  by (elim disjE exE) simp_all

lemma handle_delete_scoped:
  "scoped (user_id keyData) w (snd (handle_delete w req keyData)) \<and>
   length (ideas (snd (handle_delete w req keyData))) = length (ideas w)"
  using store_update_scoped [where owner = "user_id keyData" and w = w]
  by (simp add: handle_delete_world)

lemma dispatch_scoped:
  "scoped (user_id keyData) w (snd (dispatch e w req keyData))"
  unfolding dispatch_def
  using handle_get_scoped [where keyData = keyData and w = w and req = req]
    handle_post_scoped [where keyData = keyData and w = w and e = e and req = req]
    handle_put_scoped [where keyData = keyData and w = w and req = req]
    handle_delete_scoped [where keyData = keyData and w = w and req = req]
  by simp

lemma returned_null [simp]: "returned (respond st JNull) = []"
  by (simp add: returned_def respond_def)

lemma serve_cases:
  assumes "given (api_key_header req) = Some apiKey"
    and "authenticateApiKey e apiKey = Inr keyData"
  shows "(snd (serve e w req) = w \<and> returned (fst (serve e w req)) = [] \<and>
          resp_status (fst (serve e w req)) \<in> {200, 403, 500} \<and>
          (req_method req = ''OPTIONS'' \<or> \<not> permitted req keyData \<or>
           (\<exists>err. checkRateLimit e (api_key_id keyData) ''ai-ideas'' (rate_limit_per_hour keyData) = Inl err))) \<or>
         (req_method req \<noteq> ''OPTIONS'' \<and> permitted req keyData \<and>
          (\<exists>ok. checkRateLimit e (api_key_id keyData) ''ai-ideas'' (rate_limit_per_hour keyData) = Inr ok) \<and>
          serve e w req = dispatch e w req keyData)"
  using assms
  by (auto simp: serve_def split: sum.splits)

lemma single_no_match:
  assumes "\<forall>r \<in> set rs. \<not> P r"
  shows "single (filter P rs) = None"
proof -
  have "filter P rs = []" using assms by (simp add: filter_empty_conv)
  then show ?thesis by (simp add: single_def)
qed


text \<open>
  C1 (owner isolation).  For every request carrying a key that authenticates: every store
  call the request causes is scoped to the key's owner; no record is removed, a record that
  changed belonged to the owner, and a record that was added is stored under the owner
  (whatever owner field the payload carries); every record a GET returns is a record of the
  table owned by the owner; a GET of a single idea that no record of the owner matches is
  answered 404; a POST answered 201 appended exactly the returned record, owned by the
  owner, and any other POST left the table as it was; PUT and DELETE keep the number of
  records.
\<close>

theorem owner_isolation:
  assumes "given (api_key_header req) = Some apiKey"
    and "authenticateApiKey e apiKey = Inr keyData"
  shows
    "(\<exists>cs. calls (snd (serve e w req)) = calls w @ cs \<and>
           list_all (\<lambda>c. call_owner c = JStr (user_id keyData)) cs) \<and>
     length (ideas w) \<le> length (ideas (snd (serve e w req))) \<and>
     (\<forall>i < length (ideas w). ideas (snd (serve e w req)) ! i \<noteq> ideas w ! i \<longrightarrow>
          column (ideas w ! i) ''user_id'' = JStr (user_id keyData)) \<and>
     (\<forall>r \<in> set (drop (length (ideas w)) (ideas (snd (serve e w req)))).
          column r ''user_id'' = JStr (user_id keyData)) \<and>
     (req_method req = ''GET'' \<longrightarrow>
        set (returned (fst (serve e w req))) \<subseteq>
          {r \<in> set (ideas w). column r ''user_id'' = JStr (user_id keyData)}) \<and>
     (req_method req = ''GET'' \<and> permitted req keyData \<and>
      (\<exists>ok. checkRateLimit e (api_key_id keyData) ''ai-ideas'' (rate_limit_per_hour keyData) = Inr ok) \<and>
      last_segment (pathname req) \<noteq> [] \<and> last_segment (pathname req) \<noteq> ''ai-ideas'' \<and>
      (\<forall>r \<in> set (ideas w). column r ''id'' = JStr (last_segment (pathname req)) \<longrightarrow>
           column r ''user_id'' \<noteq> JStr (user_id keyData)) \<longrightarrow>
        fst (serve e w req) = respond 404 (error_body ''Idea not found'')) \<and>
     (req_method req = ''POST'' \<longrightarrow>
        (if resp_status (fst (serve e w req)) = 201
         then \<exists>r. ideas (snd (serve e w req)) = ideas w @ [r] \<and>
                  column r ''user_id'' = JStr (user_id keyData) \<and>
                  returned (fst (serve e w req)) = [r]
         else ideas (snd (serve e w req)) = ideas w)) \<and>
     (req_method req = ''PUT'' \<or> req_method req = ''DELETE'' \<longrightarrow>
        length (ideas (snd (serve e w req))) = length (ideas w))"
proof -
  consider
    (stopped) "snd (serve e w req) = w" "returned (fst (serve e w req)) = []"
      "resp_status (fst (serve e w req)) \<in> {200, 403, 500}"
      "req_method req = ''OPTIONS'' \<or> \<not> permitted req keyData \<or>
       (\<exists>err. checkRateLimit e (api_key_id keyData) ''ai-ideas'' (rate_limit_per_hour keyData) = Inl err)"
  | (dispatched) "serve e w req = dispatch e w req keyData"
    using serve_cases [OF assms, of w] by blast
  then show ?thesis
  proof cases
    case stopped
    from stopped(4) have no404:
      "\<not> (req_method req = ''GET'' \<and> permitted req keyData \<and>
          (\<exists>ok. checkRateLimit e (api_key_id keyData) ''ai-ideas'' (rate_limit_per_hour keyData) = Inr ok))"
      by auto
    from stopped(3) have "resp_status (fst (serve e w req)) \<noteq> 201" by auto
    with stopped(1,2) no404 show ?thesis by auto
  next
    case dispatched
    have sc: "scoped (user_id keyData) w (snd (serve e w req))"
      unfolding dispatched by (rule dispatch_scoped)
    have get: "req_method req = ''GET'' \<longrightarrow>
        set (returned (fst (serve e w req))) \<subseteq>
          {r \<in> set (ideas w). column r ''user_id'' = JStr (user_id keyData)}"
      unfolding dispatched dispatch_def
      using handle_get_scoped [where keyData = keyData and w = w and req = req] by simp
    have nf: "req_method req = ''GET'' \<and>
      last_segment (pathname req) \<noteq> [] \<and> last_segment (pathname req) \<noteq> ''ai-ideas'' \<and>
      (\<forall>r \<in> set (ideas w). column r ''id'' = JStr (last_segment (pathname req)) \<longrightarrow>
           column r ''user_id'' \<noteq> JStr (user_id keyData)) \<longrightarrow>
        fst (serve e w req) = respond 404 (error_body ''Idea not found'')"
    proof (intro impI, elim conjE)
      assume m: "req_method req = ''GET''"
        and seg: "last_segment (pathname req) \<noteq> []" "last_segment (pathname req) \<noteq> ''ai-ideas''"
        and other: "\<forall>r \<in> set (ideas w). column r ''id'' = JStr (last_segment (pathname req)) \<longrightarrow>
           column r ''user_id'' \<noteq> JStr (user_id keyData)"
      have "single (filter (matches (last_segment (pathname req)) (user_id keyData)) (ideas w)) = None"
        by (rule single_no_match) (use other in \<open>auto simp: matches_def\<close>)
      then show "fst (serve e w req) = respond 404 (error_body ''Idea not found'')"
        unfolding dispatched dispatch_def using m seg
        by (simp add: handle_get_single [OF refl])
    qed
    have post: "req_method req = ''POST'' \<longrightarrow>
        (if resp_status (fst (serve e w req)) = 201
         then \<exists>r. ideas (snd (serve e w req)) = ideas w @ [r] \<and>
                  column r ''user_id'' = JStr (user_id keyData) \<and>
                  returned (fst (serve e w req)) = [r]
         else ideas (snd (serve e w req)) = ideas w)"
      unfolding dispatched dispatch_def
      using handle_post_scoped [where keyData = keyData and w = w and req = req and e = e]
      by simp
    have upd: "req_method req = ''PUT'' \<or> req_method req = ''DELETE'' \<longrightarrow>
        length (ideas (snd (serve e w req))) = length (ideas w)"
      unfolding dispatched dispatch_def
      using handle_put_scoped [where keyData = keyData and w = w and req = req]
        handle_delete_scoped [where keyData = keyData and w = w and req = req]
      by auto
    from sc get nf post upd show ?thesis by blast
  qed
qed

theorem owner_isolation_witness:
  "fst (serve env0 world0 (request_of ''GET'' ''iah_B'' ''/ai-ideas/i1'' [] None)) =
     respond 404 (error_body ''Idea not found'') \<and>
   map (\<lambda>r. column r ''user_id'')
     (ideas (snd (serve env0 world0
        (request_of ''POST'' ''iah_A'' ''/ai-ideas'' []
           (Some (JObj [(''title'', JStr ''Mine''), (''user_id'', JStr ''B'')])))))) =
     [JStr ''A'', JStr ''A'']"
proof -
  let ?get = "request_of ''GET'' ''iah_B'' ''/ai-ideas/i1'' [] None"
  let ?post = "request_of ''POST'' ''iah_A'' ''/ai-ideas'' []
           (Some (JObj [(''title'', JStr ''Mine''), (''user_id'', JStr ''B'')]))"
  have authB: "given (api_key_header ?get) = Some ''iah_B''"
    "authenticateApiKey env0 ''iah_B'' = Inr key_B"
    by (simp_all add: auth_eval)
  have authA: "given (api_key_header ?post) = Some ''iah_A''"
    "authenticateApiKey env0 ''iah_A'' = Inr key_A"
    by (simp_all add: auth_eval)
  have pre: "req_method ?get = ''GET'' \<and> permitted ?get key_B \<and>
      (\<exists>ok. checkRateLimit env0 (api_key_id key_B) ''ai-ideas'' (rate_limit_per_hour key_B) = Inr ok) \<and>
      last_segment (pathname ?get) \<noteq> [] \<and> last_segment (pathname ?get) \<noteq> ''ai-ideas'' \<and>
      (\<forall>r \<in> set (ideas world0). column r ''id'' = JStr (last_segment (pathname ?get)) \<longrightarrow>
           column r ''user_id'' \<noteq> JStr (user_id key_B))"
    by (auto simp: auth_eval world0_def idea1_def column_def)
  have g: "fst (serve env0 world0 ?get) = respond 404 (error_body ''Idea not found'')"
    using owner_isolation [OF authB, of world0, THEN conjunct2, THEN conjunct2, THEN conjunct2,
        THEN conjunct2, THEN conjunct2, THEN conjunct1] pre
    by (rule mp)
  have created: "resp_status (fst (serve env0 world0 ?post)) = 201"
    by (simp add: gateway_eval deployment_eval validator_eval sanitizer_eval store_eval string_eval)
  have m: "req_method ?post = ''POST''" by (simp add: request_of_def)
  have "\<exists>r. ideas (snd (serve env0 world0 ?post)) = ideas world0 @ [r] \<and>
             column r ''user_id'' = JStr (user_id key_A) \<and>
             returned (fst (serve env0 world0 ?post)) = [r]"
    using owner_isolation [OF authA, of world0, THEN conjunct2, THEN conjunct2, THEN conjunct2,
        THEN conjunct2, THEN conjunct2, THEN conjunct2, THEN conjunct1, THEN mp, OF m] created
    by simp
  then obtain r where "ideas (snd (serve env0 world0 ?post)) = ideas world0 @ [r]"
    "column r ''user_id'' = JStr (user_id key_A)" by blast
  then have p: "map (\<lambda>r. column r ''user_id'') (ideas (snd (serve env0 world0 ?post))) =
      [JStr ''A'', JStr ''A'']"
    by (simp add: world0_def idea1_def column_def key_A_def)
  from g p show ?thesis by simp
qed


section \<open>Validator completeness\<close>

lemma mem_by_code: "c \<in> set cs \<longleftrightarrow> (of_char c :: nat) \<in> set (map of_char cs)"
  by (simp add: inj_image_mem_iff [OF inj_of_char])

lemma digit_range: "CHR ''0'' \<le> c \<and> c \<le> CHR ''9'' \<longleftrightarrow> c \<in> set ''0123456789''"
  unfolding less_eq_char_def mem_by_code [of c] by simp arith

lemma upper_range:
  "CHR ''A'' \<le> c \<and> c \<le> CHR ''Z'' \<longleftrightarrow> c \<in> set ''ABCDEFGHIJKLMNOPQRSTUVWXYZ''"
  unfolding less_eq_char_def mem_by_code [of c] by simp arith

lemma lower_af_range:
  "CHR ''a'' \<le> c \<and> c \<le> CHR ''f'' \<longleftrightarrow> c \<in> set ''abcdef''"
  unfolding less_eq_char_def mem_by_code [of c] by simp arith

lemma lower_hex: "CHR ''a'' \<le> lower c \<and> lower c \<le> CHR ''f'' \<longleftrightarrow> c \<in> set ''ABCDEFabcdef''"
proof (cases "c \<in> set ''ABCDEFGHIJKLMNOPQRSTUVWXYZ''")
  case True
  then show ?thesis by (auto simp: lower_def)
next
  case False
  then have "lower c = c" using upper_range [of c] by (simp add: lower_def)
  with False show ?thesis using lower_af_range [of c] by auto
qed

lemma is_hex_iff: "is_hex c \<longleftrightarrow> c \<in> set spec_hex_digits"
  unfolding is_hex_def lower_hex digit_range spec_hex_digits_def by auto

lemma color_regex_test_iff: "color_regex_test s \<longleftrightarrow> spec_hex_color s"
  by (cases s) (auto simp: color_regex_test_def spec_hex_color_def is_hex_iff list_all_iff)

lemma trim_empty_iff: "trim s = [] \<longleftrightarrow> list_all is_space s"
proof
  assume "list_all is_space s"
  then have d: "dropWhile is_space s = []" by (simp add: list_all_iff)
  show "trim s = []" unfolding trim_def d by simp
next
  assume t: "trim s = []"
  show "list_all is_space s"
  proof (rule ccontr)
    assume "\<not> list_all is_space s"
    then have ne: "dropWhile is_space s \<noteq> []" by (simp add: list_all_iff)
    then have "\<not> is_space (hd (dropWhile is_space s))" by (rule hd_dropWhile)
    moreover have "hd (dropWhile is_space s) \<in> set (rev (dropWhile is_space s))"
      using ne by simp
    ultimately have "dropWhile is_space (rev (dropWhile is_space s)) \<noteq> []"
      by (auto simp: dropWhile_eq_Nil_conv simp del: set_rev)
    then show False using t by (simp add: trim_def)
  qed
qed

lemma set_check: "set (check b m) = (if b then {m} else {})"
  by (simp add: check_def)

lemma check_Nil: "check b m = [] \<longleftrightarrow> \<not> b"
  by (simp add: check_def)

lemma messages_distinct:
  "distinct [msg_title_required, msg_title_length, msg_description, msg_status, msg_tags, msg_color]"
  by (simp add: msg_title_required_def msg_title_length_def msg_description_def msg_status_def
      msg_tags_def msg_color_def)

lemma title_missing_iff:
  "title_missing d \<longleftrightarrow> \<not> (\<exists>s. get_prop d ''title'' = JStr s \<and> \<not> list_all is_space s)"
  by (cases "get_prop d ''title''") (auto simp: title_missing_def trim_empty_iff)

lemma title_too_long_string:
  "get_prop d ''title'' = JStr s \<Longrightarrow> title_too_long d \<longleftrightarrow> 500 < length s"
  by (auto simp: title_too_long_def)

lemma color_bad_iff:
  "color_bad d \<longleftrightarrow>
     truthy (get_prop d ''color'') \<and> \<not> (\<exists>s. get_prop d ''color'' = JStr s \<and> spec_hex_color s)"
  by (cases "get_prop d ''color''") (auto simp: color_bad_def color_regex_test_iff)

lemma not_hex_empty: "\<not> spec_hex_color []"
  by (simp add: spec_hex_color_def)


text \<open>
  C9, as amended (validator completeness).  For every payload other than \<^verbatim>\<open>null\<close>,
  \<^verbatim>\<open>validateIdeaData\<close> returns a list without repetition that holds the message of a
  rule exactly when the rule is violated, and is empty exactly when none is.  The title
  message is present unless the title is a string with a character that is not white
  space (so it is present for a missing and for a blank title); the colour message is
  present exactly when the colour is truthy and not a string matching
  \<^verbatim>\<open>^#[0-9A-Fa-f]{6}$\<close>: a non-empty string that does not match is reported, a matching
  string passes, and the empty string is treated as absent and passes.
\<close>

theorem validator_complete:
  assumes "d \<noteq> JNull" and "d \<noteq> JUndefined"
  shows "\<exists>errs. validateIdeaData d = Inr errs \<and> distinct errs \<and>
     (msg_title_required \<in> set errs \<longleftrightarrow>
        \<not> (\<exists>s. get_prop d ''title'' = JStr s \<and> \<not> list_all is_space s)) \<and>
     (msg_title_length \<in> set errs \<longleftrightarrow> title_too_long d) \<and>
     (msg_description \<in> set errs \<longleftrightarrow> description_bad d) \<and>
     (msg_status \<in> set errs \<longleftrightarrow> status_bad d) \<and>
     (msg_tags \<in> set errs \<longleftrightarrow> tags_bad d) \<and>
     (msg_color \<in> set errs \<longleftrightarrow>
        truthy (get_prop d ''color'') \<and>
        \<not> (\<exists>s. get_prop d ''color'' = JStr s \<and> spec_hex_color s)) \<and>
     (errs = [] \<longleftrightarrow>
        (\<exists>s. get_prop d ''title'' = JStr s \<and> \<not> list_all is_space s) \<and>
        \<not> title_too_long d \<and> \<not> description_bad d \<and> \<not> status_bad d \<and> \<not> tags_bad d \<and>
        \<not> (truthy (get_prop d ''color'') \<and>
           \<not> (\<exists>s. get_prop d ''color'' = JStr s \<and> spec_hex_color s))) \<and>
     (get_prop d ''title'' = JUndefined \<longrightarrow> msg_title_required \<in> set errs) \<and>
     (\<forall>s. get_prop d ''title'' = JStr s \<and> list_all is_space s \<longrightarrow>
          msg_title_required \<in> set errs) \<and>
     (\<forall>s. get_prop d ''title'' = JStr s \<longrightarrow> (msg_title_length \<in> set errs \<longleftrightarrow> 500 < length s)) \<and>
     (\<forall>s. get_prop d ''color'' = JStr s \<and> s \<noteq> [] \<and> \<not> spec_hex_color s \<longrightarrow>
          msg_color \<in> set errs) \<and>
     (\<forall>s. get_prop d ''color'' = JStr s \<and> spec_hex_color s \<longrightarrow> msg_color \<notin> set errs) \<and>
     (get_prop d ''color'' = JStr [] \<longrightarrow> msg_color \<notin> set errs)"
proof -
  let ?errs = "check (title_missing d) msg_title_required @
               check (title_too_long d) msg_title_length @
               check (description_bad d) msg_description @
               check (status_bad d) msg_status @
               check (tags_bad d) msg_tags @
               check (color_bad d) msg_color"
  have v: "validateIdeaData d = Inr ?errs"
    using assms by (simp add: validateIdeaData_def)
  have dist: "distinct ?errs"
    using messages_distinct by (simp add: check_def)
  have m1: "msg_title_required \<in> set ?errs \<longleftrightarrow> title_missing d"
    and m2: "msg_title_length \<in> set ?errs \<longleftrightarrow> title_too_long d"
    and m3: "msg_description \<in> set ?errs \<longleftrightarrow> description_bad d"
    and m4: "msg_status \<in> set ?errs \<longleftrightarrow> status_bad d"
    and m5: "msg_tags \<in> set ?errs \<longleftrightarrow> tags_bad d"
    and m6: "msg_color \<in> set ?errs \<longleftrightarrow> color_bad d"
    using messages_distinct by (auto simp: set_check)
  have e: "?errs = [] \<longleftrightarrow>
      \<not> title_missing d \<and> \<not> title_too_long d \<and> \<not> description_bad d \<and> \<not> status_bad d \<and>
      \<not> tags_bad d \<and> \<not> color_bad d"
    by (simp add: check_Nil)
  have t: "get_prop d ''title'' = JUndefined \<longrightarrow> title_missing d"
    by (simp add: title_missing_def)
  have c0: "get_prop d ''color'' = JStr [] \<longrightarrow> \<not> color_bad d"
    by (simp add: color_bad_def)
  show ?thesis
    apply (rule exI [of _ ?errs])
    apply (simp only: v m1 m2 m3 m4 m5 m6 e)
    using dist t c0 title_too_long_string [of d]
    apply (simp only: title_missing_iff color_bad_iff)
    apply (intro conjI)
    apply (simp_all add: not_hex_empty)
    done
qed

theorem validator_complete_witness:
  "validateIdeaData (JObj [(''color'', JStr ''#12345'')]) =
     Inr [msg_title_required, msg_color] \<and>
   validateIdeaData (JObj [(''title'', JStr ''   ''), (''color'', JStr ''#1a2B3c'')]) =
     Inr [msg_title_required]"
proof -
  let ?d = "JObj [(''color'', JStr ''#12345'')]"
  let ?d2 = "JObj [(''title'', JStr ''   ''), (''color'', JStr ''#1a2B3c'')]"
  obtain errs where e: "validateIdeaData ?d = Inr errs"
    "msg_title_required \<in> set errs" "msg_color \<in> set errs"
    using validator_complete [of ?d] by (auto simp: spec_hex_color_def)
  obtain errs2 where e2: "validateIdeaData ?d2 = Inr errs2"
    "msg_title_required \<in> set errs2" "msg_color \<notin> set errs2"
    using validator_complete [of ?d2] by (auto simp: spec_hex_color_def spec_hex_digits_def is_space_def)
  have a: "validateIdeaData ?d = Inr [msg_title_required, msg_color]"
    by (simp add: validator_eval string_eval)
  have b: "validateIdeaData ?d2 = Inr [msg_title_required]"
    by (simp add: validator_eval string_eval)
  from e(1) a have "errs = [msg_title_required, msg_color]" by simp
  moreover from e2(1) b have "errs2 = [msg_title_required]" by simp
  ultimately show ?thesis using e(1) e2(1) by simp
qed


text \<open>The claim as stated fails at the empty colour string: it does not match the pattern,
  and the validator reports nothing.  And on the payload \<^verbatim>\<open>null\<close> the validator throws
  instead of returning a list.\<close>

theorem empty_color_passes:
  "\<not> color_regex_test [] \<and>
   validateIdeaData (JObj [(''title'', JStr ''T''), (''color'', JStr [])]) = Inr [] \<and>
   validateIdeaData JNull = Inl null_read"
  by (simp add: validator_eval string_eval)

section \<open>Collection GET parameters\<close>

lemma param_or_given:
  "param_or req k dflt = (case given (param req k) of None \<Rightarrow> dflt | Some v \<Rightarrow> v)"
  by (simp add: param_or_def given_def split: option.splits)

lemma parseInt_defaults: "parseInt ''50'' = Some 50" "parseInt ''0'' = Some 0"
  by (simp_all add: parseInt_def parse_radix_def digits_value_def is_digit_def digit_value_def
      Let_def string_eval)

lemma limit_of_bound: "limit_of req = Some n \<Longrightarrow> n \<le> 100"
  by (auto simp: limit_of_def math_min_def split: option.splits)

lemma handle_get_collection:
  assumes "last_segment (pathname req) = [] \<or> last_segment (pathname req) = ''ai-ideas''"
  shows "handle_get w req keyData =
     (case store_select_range (user_id keyData) (offset_of req) (limit_of req)
             (given (param req ''status'')) (given (param req ''search'')) w of
        (None, w') \<Rightarrow> (respond 500 (error_body ''Failed to fetch ideas''), w')
      | (Some rs, w') \<Rightarrow>
          (respond 200
             (JObj [(''data'', JArr (map JObj rs)),
                    (''meta'', JObj [(''limit'', num_json (limit_of req)),
                                     (''offset'', num_json (offset_of req)),
                                     (''count'', JNum (int (length rs)))])]), w'))"
  using assms by (auto simp: handle_get_def)


text \<open>
  C8, as amended (collection GET parameters).  For every authenticated, permitted and
  admitted collection GET, exactly one store query is made, scoped to the key's owner,
  with the offset, limit, status and search computed from the query string: a non-empty
  status is passed on as an equality filter without being validated; the effective limit
  never exceeds 100, is 50 when the parameter is absent or empty, and is \<open>min n 100\<close> (at
  least 1) when the parameter parses to an integer \<open>n \<ge> 1\<close>; the effective offset is 0
  when the parameter is absent or empty and is \<open>n\<close> when it parses to \<open>n \<ge> 0\<close>; and a 200
  response reports the effective limit and offset, and the number of records, in its meta.
\<close>

theorem collection_get_parameters:
  assumes "req_method req = ''GET''"
    and "given (api_key_header req) = Some apiKey"
    and "authenticateApiKey e apiKey = Inr keyData"
    and "permitted req keyData"
    and "checkRateLimit e (api_key_id keyData) ''ai-ideas'' (rate_limit_per_hour keyData) = Inr ok"
    and "last_segment (pathname req) = [] \<or> last_segment (pathname req) = ''ai-ideas''"
  shows
    "calls (snd (serve e w req)) =
       calls w @ [SelectRange (user_id keyData) (offset_of req) (limit_of req)
                    (given (param req ''status'')) (given (param req ''search''))] \<and>
     ideas (snd (serve e w req)) = ideas w \<and>
     (\<forall>n. limit_of req = Some n \<longrightarrow> n \<le> 100) \<and>
     (given (param req ''limit'') = None \<longrightarrow> limit_of req = Some 50) \<and>
     (\<forall>t n. given (param req ''limit'') = Some t \<and> parseInt t = Some n \<and> 1 \<le> n \<longrightarrow>
          limit_of req = Some (min n 100) \<and> 1 \<le> min n 100) \<and>
     (given (param req ''offset'') = None \<longrightarrow> offset_of req = Some 0) \<and>
     (\<forall>t n. given (param req ''offset'') = Some t \<and> parseInt t = Some n \<and> 0 \<le> n \<longrightarrow>
          offset_of req = Some n) \<and>
     (resp_status (fst (serve e w req)) = 200 \<longrightarrow>
        get_prop (get_prop (resp_body (fst (serve e w req))) ''meta'') ''limit'' =
          num_json (limit_of req) \<and>
        get_prop (get_prop (resp_body (fst (serve e w req))) ''meta'') ''offset'' =
          num_json (offset_of req) \<and>
        get_prop (get_prop (resp_body (fst (serve e w req))) ''meta'') ''count'' =
          JNum (int (length (returned (fst (serve e w req))))))"
proof -
  let ?q = "store_select_range (user_id keyData) (offset_of req) (limit_of req)
              (given (param req ''status'')) (given (param req ''search'')) w"
  have s: "serve e w req = handle_get w req keyData"
    using assms(1-5) by (simp add: serve_def dispatch_def)
  have w': "snd ?q = logged (SelectRange (user_id keyData) (offset_of req) (limit_of req)
              (given (param req ''status'')) (given (param req ''search''))) w"
    by (rule store_select_range_world)
  have world: "snd (serve e w req) = snd ?q"
    unfolding s handle_get_collection [OF assms(6)]
    by (cases ?q) (auto split: option.splits)
  have store: "calls (snd (serve e w req)) =
       calls w @ [SelectRange (user_id keyData) (offset_of req) (limit_of req)
                    (given (param req ''status'')) (given (param req ''search''))] \<and>
     ideas (snd (serve e w req)) = ideas w"
    unfolding world w' by (simp add: logged_def)
  have lim: "(\<forall>n. limit_of req = Some n \<longrightarrow> n \<le> 100) \<and>
     (given (param req ''limit'') = None \<longrightarrow> limit_of req = Some 50) \<and>
     (\<forall>t n. given (param req ''limit'') = Some t \<and> parseInt t = Some n \<and> 1 \<le> n \<longrightarrow>
          limit_of req = Some (min n 100) \<and> 1 \<le> min n 100)"
    by (auto simp: limit_of_def math_min_def param_or_given parseInt_defaults split: option.splits)
  have off: "(given (param req ''offset'') = None \<longrightarrow> offset_of req = Some 0) \<and>
     (\<forall>t n. given (param req ''offset'') = Some t \<and> parseInt t = Some n \<and> 0 \<le> n \<longrightarrow>
          offset_of req = Some n)"
    by (auto simp: offset_of_def param_or_given parseInt_defaults)
  have meta: "resp_status (fst (serve e w req)) = 200 \<longrightarrow>
        get_prop (get_prop (resp_body (fst (serve e w req))) ''meta'') ''limit'' =
          num_json (limit_of req) \<and>
        get_prop (get_prop (resp_body (fst (serve e w req))) ''meta'') ''offset'' =
          num_json (offset_of req) \<and>
        get_prop (get_prop (resp_body (fst (serve e w req))) ''meta'') ''count'' =
          JNum (int (length (returned (fst (serve e w req)))))"
  proof (cases "fst ?q")
    case None
    then have "fst (serve e w req) = respond 500 (error_body ''Failed to fetch ideas'')"
      unfolding s handle_get_collection [OF assms(6)] by (cases ?q) simp
    then show ?thesis by simp
  next
    case (Some rs)
    then have r: "fst (serve e w req) =
        respond 200
             (JObj [(''data'', JArr (map JObj rs)),
                    (''meta'', JObj [(''limit'', num_json (limit_of req)),
                                     (''offset'', num_json (offset_of req)),
                                     (''count'', JNum (int (length rs)))])])"
      unfolding s handle_get_collection [OF assms(6)] by (cases ?q) simp
    have "returned (fst (serve e w req)) = rs" unfolding r by simp
    then show ?thesis unfolding r by (simp add: respond_def)
  qed
  from store lim off meta show ?thesis by blast
qed

theorem collection_get_parameters_witness:
  "calls (snd (serve env0 world0
      (request_of ''GET'' ''iah_A'' ''/ai-ideas'' [(''limit'', ''500'')] None))) =
     [SelectRange ''A'' (Some 0) (Some 100) None None] \<and>
   get_prop (get_prop (resp_body (fst (serve env0 world0
      (request_of ''GET'' ''iah_A'' ''/ai-ideas'' [(''limit'', ''500'')] None)))) ''meta'') ''limit'' =
     JNum 100"
proof -
  let ?req = "request_of ''GET'' ''iah_A'' ''/ai-ideas'' [(''limit'', ''500'')] None"
  have p: "parseInt ''500'' = Some 500"
    by (simp add: parseInt_def parse_radix_def digits_value_def is_digit_def digit_value_def
        Let_def string_eval)
  have l: "limit_of ?req = Some 100"
    by (simp add: limit_of_def math_min_def param_or_def param_def request_of_def p)
  have o: "offset_of ?req = Some 0"
    by (simp add: offset_of_def param_or_def param_def request_of_def parseInt_defaults)
  have ok: "resp_status (fst (serve env0 world0 ?req)) = 200"
    by (simp add: gateway_eval deployment_eval store_eval string_eval)
  have t: "calls (snd (serve env0 world0 ?req)) =
       calls world0 @ [SelectRange (user_id key_A) (offset_of ?req) (limit_of ?req)
                    (given (param ?req ''status'')) (given (param ?req ''search''))] \<and>
     (resp_status (fst (serve env0 world0 ?req)) = 200 \<longrightarrow>
        get_prop (get_prop (resp_body (fst (serve env0 world0 ?req))) ''meta'') ''limit'' =
          num_json (limit_of ?req))"
    using collection_get_parameters [of ?req "''iah_A''" env0 key_A True world0]
    by (simp add: auth_eval)
  from t ok show ?thesis
    unfolding l o by (simp add: key_A_def world0_def given_def param_def request_of_def num_json_def)
qed


text \<open>The claim as stated fails: a status outside the five values is not rejected but
  queried, a limit of 0 is not raised to 1, and a negative offset is passed on.\<close>

theorem collection_get_unchecked_parameters:
  "resp_status (fst (serve env0 world0
      (request_of ''GET'' ''iah_A'' ''/ai-ideas'' [(''status'', ''bogus'')] None))) = 200 \<and>
   calls (snd (serve env0 world0
      (request_of ''GET'' ''iah_A'' ''/ai-ideas'' [(''status'', ''bogus'')] None))) =
     [SelectRange ''A'' (Some 0) (Some 50) (Some ''bogus'') None] \<and>
   ''bogus'' \<notin> set valid_statuses \<and>
   calls (snd (serve env0 world0
      (request_of ''GET'' ''iah_A'' ''/ai-ideas'' [(''limit'', ''0''), (''offset'', ''-3'')] None))) =
     [SelectRange ''A'' (Some (- 3)) (Some 0) None None]"
  by (simp add: gateway_eval deployment_eval store_eval string_eval valid_statuses_def)

section \<open>PUT with a falsy description\<close>
















end
